theory Spec2Isabelle
  imports Main "HOL-Library.Sublist"
begin

section \<open>Plugin store manager: values, caches and catalog\<close>

text \<open>
  This theory embeds the plugin acquisition subsystem of
  \<^verbatim>\<open>src/plugin_system/store_manager.py\<close> (class \<^verbatim>\<open>PluginStoreManager\<close>).
  Python values that come out of \<^verbatim>\<open>json.load\<close> / \<^verbatim>\<open>response.json()\<close> are
  modelled by \<open>jval\<close>; a JSON object is the list of its key/value pairs (keys distinct).
\<close>

datatype jval =
    JNull
  | JBool bool
  | JNum int
  | JStr string
  | JArr "jval list"
  | JObj "(string \<times> jval) list"

text \<open>Python truthiness (\<^verbatim>\<open>if x:\<close>, \<^verbatim>\<open>not x\<close>, \<^verbatim>\<open>a or b\<close>) of a JSON value.\<close>

fun truthy :: "jval \<Rightarrow> bool" where
  "truthy JNull = False"
| "truthy (JBool b) = b"
| "truthy (JNum n) = (n \<noteq> 0)"
| "truthy (JStr s) = (s \<noteq> [])"
| "truthy (JArr xs) = (xs \<noteq> [])"
| "truthy (JObj kvs) = (kvs \<noteq> [])"

text \<open>Exceptions that the modelled methods can let escape or turn into a result.\<close>

datatype exn = AttributeError | TypeError | KeyError | JSONDecodeError | RequestException
  | HTTPError | BadZipFile | IsADirectoryError | FileNotFoundError | ShutilError
  | FileExistsError | NotADirectoryError

subsection \<open>\<^verbatim>\<open>_distinct_sequence\<close>\<close>

text \<open>
  \<^verbatim>\<open>
  seen = set(); ordered = []
  for value in values:
      if not value: continue
      if value in seen: continue
      seen.add(value); ordered.append(value)
  return ordered
  \<close>
  The values are \<^verbatim>\<open>Optional[str]\<close>: \<open>None\<close> is Python's \<^verbatim>\<open>None\<close>; \<open>None\<close> and the
  empty string are the falsey entries.
\<close>

fun distinct_loop :: "string option list \<Rightarrow> string set \<Rightarrow> string list \<Rightarrow> string list" where
  "distinct_loop [] seen ordered = ordered"
| "distinct_loop (None # vs) seen ordered = distinct_loop vs seen ordered"
| "distinct_loop (Some v # vs) seen ordered =
     (if v = [] then distinct_loop vs seen ordered
      else if v \<in> seen then distinct_loop vs seen ordered
      else distinct_loop vs (insert v seen) (ordered @ [v]))"

definition distinct_sequence :: "string option list \<Rightarrow> string list" where
  "distinct_sequence vals = distinct_loop vals {} []"

text \<open>
  The specification's wording of the same list: drop the empty and absent entries, then
  keep the first occurrence of every entry, in order.
\<close>

fun present_entries :: "string option list \<Rightarrow> string list" where
  "present_entries [] = []"
| "present_entries (None # vs) = present_entries vs"
| "present_entries (Some v # vs) = (if v = [] then present_entries vs else v # present_entries vs)"

fun first_occurrences :: "'a list \<Rightarrow> 'a list" where
  "first_occurrences [] = []"
| "first_occurrences (x # xs) = x # first_occurrences (filter (\<lambda>y. y \<noteq> x) xs)"

subsection \<open>Strings\<close>

definition lower_char :: "char \<Rightarrow> char" where
  "lower_char c =
     (case map_of (zip ''ABCDEFGHIJKLMNOPQRSTUVWXYZ'' ''abcdefghijklmnopqrstuvwxyz'') c of
        Some d \<Rightarrow> d
      | None \<Rightarrow> c)"

definition lower :: "string \<Rightarrow> string" where
  "lower s = map lower_char s"

text \<open>\<^verbatim>\<open>needle in haystack\<close> on strings.\<close>

fun contains :: "string \<Rightarrow> string \<Rightarrow> bool" where
  "contains [] needle = (needle = [])"
| "contains (c # cs) needle = (prefix needle (c # cs) \<or> contains cs needle)"

subsection \<open>\<^verbatim>\<open>_validate_github_token\<close>\<close>

text \<open>
  The outcome of \<^verbatim>\<open>requests.get(api_url, headers=headers, timeout=5)\<close>: a response
  (status code and body text) or one of the exceptions of the three handlers.
\<close>

datatype probe =
    Responded nat string
  | TimedOut
  | NetworkFailed string
  | Crashed string

text \<open>
  The error messages of the method, one constructor per message:
  \<^verbatim>\<open>"No token provided"\<close>, \<^verbatim>\<open>"Token is invalid or expired"\<close>,
  \<^verbatim>\<open>"Rate limit exceeded"\<close>, \<^verbatim>\<open>"Token lacks required permissions"\<close>,
  \<^verbatim>\<open>"GitHub API error: {status}"\<close>, \<^verbatim>\<open>"GitHub API request timed out"\<close>,
  \<^verbatim>\<open>"Network error: {e}"\<close>, \<^verbatim>\<open>"Unexpected error: {e}"\<close>.
\<close>

datatype token_error =
    NoTokenProvided
  | TokenInvalidOrExpired
  | RateLimitExceeded
  | TokenLacksPermissions
  | GitHubApiError nat
  | RequestTimedOut
  | NetworkError string
  | UnexpectedError string

text \<open>
  \<^verbatim>\<open>self._token_validation_cache\<close>: cache key \<open>\<mapsto>\<close> (is_valid, timestamp, error_message).
  Timestamps are the seconds of \<^verbatim>\<open>time.time()\<close>.
\<close>

type_synonym token_cache = "string \<rightharpoonup> (bool \<times> int \<times> token_error option)"

definition token_validation_cache_timeout :: int where
  "token_validation_cache_timeout = 300"

record token_outcome =
  verdict :: "bool \<times> token_error option"
  cache_after :: token_cache
  probed :: bool

text \<open>
  \<open>now\<close> is the clock read by the cache check, \<open>now'\<close> the clock read when an entry is
  stored; \<open>net\<close> is what the probe would answer. \<open>probed\<close> records whether
  \<^verbatim>\<open>requests.get\<close> was called.
\<close>

definition validate_github_token ::
  "probe \<Rightarrow> int \<Rightarrow> int \<Rightarrow> string \<Rightarrow> token_cache \<Rightarrow> token_outcome" where
  "validate_github_token net now now' token cache =
     (if token = [] then
        \<lparr>verdict = (False, Some NoTokenProvided), cache_after = cache, probed = False\<rparr>
      else
        let cache_key = take 10 token;
            fresh = (case cache cache_key of
                       None \<Rightarrow> None
                     | Some (cached_valid, cached_time, cached_error) \<Rightarrow>
                         if now - cached_time < token_validation_cache_timeout
                         then Some (cached_valid, cached_error) else None)
        in case fresh of
             Some hit \<Rightarrow> \<lparr>verdict = hit, cache_after = cache, probed = False\<rparr>
           | None \<Rightarrow>
              (case net of
                 Responded status body \<Rightarrow>
                   if status = 200 then
                     \<lparr>verdict = (True, None),
                      cache_after = cache(cache_key \<mapsto> (True, now', None)), probed = True\<rparr>
                   else if status = 401 then
                     \<lparr>verdict = (False, Some TokenInvalidOrExpired),
                      cache_after = cache(cache_key \<mapsto> (False, now', Some TokenInvalidOrExpired)),
                      probed = True\<rparr>
                   else if status = 403 then
                     (if contains (lower body) ''rate limit'' then
                        \<lparr>verdict = (False, Some RateLimitExceeded), cache_after = cache,
                         probed = True\<rparr>
                      else
                        \<lparr>verdict = (False, Some TokenLacksPermissions),
                         cache_after = cache(cache_key \<mapsto> (False, now', Some TokenLacksPermissions)),
                         probed = True\<rparr>)
                   else
                     \<lparr>verdict = (False, Some (GitHubApiError status)),
                      cache_after = cache(cache_key \<mapsto> (False, now', Some (GitHubApiError status))),
                      probed = True\<rparr>
               | TimedOut \<Rightarrow>
                   \<lparr>verdict = (False, Some RequestTimedOut), cache_after = cache, probed = True\<rparr>
               | NetworkFailed e \<Rightarrow>
                   \<lparr>verdict = (False, Some (NetworkError e)), cache_after = cache, probed = True\<rparr>
               | Crashed e \<Rightarrow>
                   \<lparr>verdict = (False, Some (UnexpectedError e)), cache_after = cache,
                    probed = True\<rparr>))"

text \<open>A cache entry is fresh at time \<open>now\<close> when it is less than five minutes old.\<close>

definition fresh_entry :: "token_cache \<Rightarrow> string \<Rightarrow> int \<Rightarrow> (bool \<times> token_error option) option" where
  "fresh_entry cache token now =
     (case cache (take 10 token) of
        None \<Rightarrow> None
      | Some (v, t, e) \<Rightarrow> if now - t < 5 * 60 then Some (v, e) else None)"

subsection \<open>HTTP requests\<close>

text \<open>
  What a file or a response body holds. Bytes that parse as JSON are represented by the
  parsed document, bytes that are a zip archive by the list of its members (name and
  content, in \<^verbatim>\<open>namelist()\<close> order; a directory member's name ends in \<open>/\<close>).
\<close>

datatype content =
    Bytes string
  | JsonDoc jval
  | ZipArchive "(string \<times> content) list"

text \<open>A response is its status code and its body.\<close>

type_synonym response = "nat \<times> content"

text \<open>
  The requests of the subsystem: the registry document (\<^verbatim>\<open>REGISTRY_URL\<close>), the recursive
  tree listing of \<open>owner/repo\<close> at a branch, a raw file of \<open>owner/repo\<close> at a branch, and an
  archive download by its URL.
\<close>

datatype request =
    RegistryReq
  | TreeReq string string string
  | RawReq string string string string
  | ArchiveReq string

text \<open>
  \<^verbatim>\<open>_http_get_with_retries\<close>: \<open>srv attempt\<close> is what attempt number \<open>attempt\<close> gives,
  \<open>None\<close> for a \<^verbatim>\<open>requests.RequestException\<close>. The loop returns the first response;
  after \<open>max_retries\<close> failures it raises the last exception (\<open>None\<close>).
\<close>

fun retry_loop :: "(nat \<Rightarrow> response option) \<Rightarrow> nat \<Rightarrow> nat \<Rightarrow> response option" where
  "retry_loop srv attempt 0 = None"
| "retry_loop srv attempt (Suc left) =
     (case srv attempt of
        Some resp \<Rightarrow> Some resp
      | None \<Rightarrow> retry_loop srv (Suc attempt) left)"

definition http_get_with_retries :: "(nat \<Rightarrow> response option) \<Rightarrow> nat \<Rightarrow> response option" where
  "http_get_with_retries srv max_retries = retry_loop srv 1 max_retries"

text \<open>\<^verbatim>\<open>response.raise_for_status()\<close> raises for the 4xx and 5xx codes.\<close>

definition error_status :: "nat \<Rightarrow> bool" where
  "error_status status = (400 \<le> status \<and> status < 600)"

definition response_json :: "content \<Rightarrow> exn + jval" where
  "response_json body = (case body of JsonDoc v \<Rightarrow> Inr v | _ \<Rightarrow> Inl JSONDecodeError)"

text \<open>\<^verbatim>\<open>d.get(key, default)\<close> on a parsed JSON object.\<close>

definition jget :: "(string \<times> jval) list \<Rightarrow> string \<Rightarrow> jval \<Rightarrow> jval" where
  "jget kvs k dflt = (case map_of kvs k of Some v \<Rightarrow> v | None \<Rightarrow> dflt)"

text \<open>\<^verbatim>\<open>len(x)\<close>: a \<^verbatim>\<open>TypeError\<close> for \<^verbatim>\<open>None\<close>, booleans and numbers.\<close>

fun py_len :: "jval \<Rightarrow> exn + nat" where
  "py_len (JStr s) = Inr (length s)"
| "py_len (JArr xs) = Inr (length xs)"
| "py_len (JObj kvs) = Inr (length kvs)"
| "py_len JNull = Inl TypeError"
| "py_len (JBool b) = Inl TypeError"
| "py_len (JNum n) = Inl TypeError"

subsection \<open>\<^verbatim>\<open>fetch_registry\<close>\<close>

record registry_state =
  registry_cache :: "jval option"
  registry_cache_time :: "int option"

definition registry_cache_timeout :: int where
  "registry_cache_timeout = 300"

definition empty_catalog :: jval where
  "empty_catalog = JObj [(''plugins'', JArr [])]"

text \<open>
  The result: \<open>returned\<close> is the returned catalog (\<open>Inr\<close>) or the exception that leaves the
  method (\<open>Inl\<close>); \<open>fetched\<close> records whether an HTTP request was made.
\<close>

record registry_outcome =
  returned :: "exn + jval"
  state_after :: registry_state
  fetched :: bool

definition cache_usable :: "registry_state \<Rightarrow> bool \<Rightarrow> int \<Rightarrow> bool" where
  "cache_usable st force_refresh current_time =
     (case registry_cache st of
        None \<Rightarrow> False
      | Some c \<Rightarrow>
          truthy c \<and>
          (case registry_cache_time st of
             None \<Rightarrow> False
           | Some t \<Rightarrow> t \<noteq> 0 \<and> \<not> force_refresh \<and> current_time - t < registry_cache_timeout))"

definition fetch_registry ::
  "(nat \<Rightarrow> response option) \<Rightarrow> int \<Rightarrow> bool \<Rightarrow> registry_state \<Rightarrow> registry_outcome" where
  "fetch_registry srv current_time force_refresh st =
     (if cache_usable st force_refresh current_time then
        \<lparr>returned = Inr (case registry_cache st of Some c \<Rightarrow> c | None \<Rightarrow> JNull),
         state_after = st, fetched = False\<rparr>
      else
        case http_get_with_retries srv 3 of
          None \<Rightarrow> \<lparr>returned = Inr empty_catalog, state_after = st, fetched = True\<rparr>
        | Some (status, body) \<Rightarrow>
            if error_status status then
              \<lparr>returned = Inr empty_catalog, state_after = st, fetched = True\<rparr>
            else
              (case response_json body of
                 Inl x \<Rightarrow> \<lparr>returned = Inr empty_catalog, state_after = st, fetched = True\<rparr>
               | Inr doc \<Rightarrow>
                   let st' = \<lparr>registry_cache = Some doc, registry_cache_time = Some current_time\<rparr>
                   in (case doc of
                         JObj kvs \<Rightarrow>
                           (case py_len (jget kvs ''plugins'' (JArr [])) of
                              Inl x \<Rightarrow> \<lparr>returned = Inl x, state_after = st', fetched = True\<rparr>
                            | Inr n \<Rightarrow> \<lparr>returned = Inr doc, state_after = st', fetched = True\<rparr>)
                       | _ \<Rightarrow> \<lparr>returned = Inl AttributeError, state_after = st', fetched = True\<rparr>)))"

section \<open>Filesystem, environment and paths\<close>

text \<open>
  A plugin directory is the map of its files, keyed by the components of the path relative
  to the directory (\<open>[''manifest.json'']\<close>, \<open>[''lib'', ''util.py'']\<close>), and the metadata
  of its version-control checkout when it has a \<^verbatim>\<open>.git\<close> directory. Empty
  sub-directories are not represented.
\<close>

record git_meta =
  head_sha :: string
  head_branch :: string
  origin_url :: "string option"

record pdir =
  files :: "string list \<rightharpoonup> content"
  git :: "git_meta option"

definition empty_dir :: pdir where
  "empty_dir = \<lparr>files = Map.empty, git = None\<rparr>"

text \<open>
  The directories the subsystem works on: \<open>Plugins i\<close> is \<^verbatim>\<open>self.plugins_dir / i\<close>,
  \<open>Standard i\<close> is \<^verbatim>\<open>project_root / 'plugins' / i\<close> (looked at by
  \<^verbatim>\<open>_find_plugin_path\<close> only), \<open>Temp\<close> is the \<^verbatim>\<open>tempfile.mkdtemp\<close> directory
  of \<^verbatim>\<open>install_from_url\<close>. A plugin id is taken to be a single path component.
\<close>

datatype path = Plugins string | Standard string | Temp

text \<open>What the operations do to the outside, in order.\<close>

datatype event =
    TreeListing string string string
  | RawFetch string string string string
  | ArchiveDownload string
  | GitClone string "string option"
  | Removed path
  | PipInstall path

record world =
  fs :: "path \<rightharpoonup> pdir"
  trace :: "event list"

definition emit :: "event \<Rightarrow> world \<Rightarrow> world" where
  "emit ev w = w\<lparr>trace := trace w @ [ev]\<rparr>"

text \<open>
  What \<^verbatim>\<open>get_plugin_info(plugin_id, fetch_latest_from_github=True, force_refresh=True)\<close>
  returns, reduced to the keys the operations read; \<open>None\<close> is an absent key or
  \<^verbatim>\<open>None\<close>.
\<close>

record plugin_info =
  repo :: "string option"
  plugin_path :: "string option"
  branch :: "string option"
  default_branch :: "string option"
  last_commit_branch :: "string option"
  last_commit_sha :: "string option"
  latest_version :: "string option"

datatype cli = CliOk | CliFails | CliMissing

text \<open>
  Everything the operations read from outside the plugin directories:
  \<^item> \<open>http\<close>: what each attempt of a request gives (\<open>None\<close>: a \<^verbatim>\<open>RequestException\<close>);
  \<^item> \<open>clone\<close>: the checkout that \<^verbatim>\<open>git clone --depth 1 [--branch b]\<close> produces, \<open>None\<close>
    when the command fails, times out or is not installed;
  \<^item> \<open>rmtree_ok\<close>, \<open>chmod_rmtree_ok\<close>, \<open>sudo_remove_ok\<close>: whether each stage of
    \<^verbatim>\<open>_safe_remove_directory\<close> removes the path (a stage that fails is taken to leave the
    directory as it was);
  \<^item> \<open>location\<close>: the resolved absolute components of a directory, \<open>extract_root\<close> those
    of the scratch directory of the archive strategies;
  \<^item> \<open>registry_info\<close>: the registry lookup described above;
  \<^item> \<open>class_in\<close>: \<^verbatim>\<open>_detect_class_name\<close> on the content of the entry-point file;
  \<^item> \<open>pip_ok\<close>: whether \<^verbatim>\<open>pip3 install -r requirements.txt\<close> succeeds;
  \<^item> \<open>standard_distinct\<close>: the standard \<^verbatim>\<open>plugins/\<close> directory exists and is not
    \<^verbatim>\<open>self.plugins_dir\<close>;
  \<^item> \<open>git_cli\<close>: how the \<^verbatim>\<open>git\<close> commands of \<^verbatim>\<open>_get_local_git_info\<close> end;
  \<^item> \<open>pull\<close>: the fetch, stash and pull sequence of \<^verbatim>\<open>update_plugin\<close> on a checkout:
    whether it ends with \<^verbatim>\<open>return True\<close> and the directory it leaves;
  \<^item> \<open>local_config_url\<close>, \<open>abbrev_ref\<close>: the output of
    \<^verbatim>\<open>git config --local --get remote.origin.url\<close> and of
    \<^verbatim>\<open>git rev-parse --abbrev-ref HEAD\<close> when they exit with 0.
\<close>

record env =
  http :: "request \<Rightarrow> nat \<Rightarrow> response option"
  clone :: "string \<Rightarrow> string option \<Rightarrow> pdir option"
  rmtree_ok :: "path \<Rightarrow> bool"
  chmod_rmtree_ok :: "path \<Rightarrow> bool"
  sudo_remove_ok :: "path \<Rightarrow> bool"
  location :: "path \<Rightarrow> string list"
  extract_root :: "string list"
  registry_info :: "string \<Rightarrow> plugin_info option"
  class_in :: "content \<Rightarrow> string option"
  pip_ok :: "path \<Rightarrow> bool"
  standard_distinct :: bool
  git_cli :: cli
  pull :: "path \<Rightarrow> pdir \<Rightarrow> bool \<times> pdir"
  local_config_url :: "path \<Rightarrow> string option"
  abbrev_ref :: "path \<Rightarrow> string option"

text \<open>Truthiness of an optional string (\<^verbatim>\<open>if value:\<close>).\<close>

definition the_default :: "'a \<Rightarrow> 'a option \<Rightarrow> 'a" where
  "the_default dflt v = (case v of None \<Rightarrow> dflt | Some x \<Rightarrow> x)"


definition truthy_opt :: "string option \<Rightarrow> bool" where
  "truthy_opt v = (case v of None \<Rightarrow> False | Some s \<Rightarrow> s \<noteq> [])"

subsection \<open>String helpers\<close>

text \<open>\<^verbatim>\<open>s.split(sep)\<close> for a one-character separator.\<close>

fun split_char :: "char \<Rightarrow> string \<Rightarrow> string list" where
  "split_char sep [] = [[]]"
| "split_char sep (c # cs) =
     (if c = sep then [] # split_char sep cs
      else (case split_char sep cs of
              w # ws \<Rightarrow> (c # w) # ws
            | [] \<Rightarrow> [[c]]))"

text \<open>
  \<^verbatim>\<open>s.split(sep)\<close> for a separator of several characters: \<open>skip\<close> counts the
  characters of a matched separator still to be passed over, \<open>cur\<close> is the current piece,
  reversed.
\<close>

fun split_str :: "string \<Rightarrow> nat \<Rightarrow> string \<Rightarrow> string \<Rightarrow> string list" where
  "split_str sep skip cur [] = [rev cur]"
| "split_str sep (Suc skip) cur (c # cs) = split_str sep skip cur cs"
| "split_str sep 0 cur (c # cs) =
     (if prefix sep (c # cs) then rev cur # split_str sep (length sep - 1) [] cs
      else split_str sep 0 (c # cur) cs)"

text \<open>\<^verbatim>\<open>s.replace(old, '')\<close>.\<close>

fun remove_all :: "string \<Rightarrow> nat \<Rightarrow> string \<Rightarrow> string" where
  "remove_all old skip [] = []"
| "remove_all old (Suc skip) (c # cs) = remove_all old skip cs"
| "remove_all old 0 (c # cs) =
     (if prefix old (c # cs) then remove_all old (length old - 1) cs
      else c # remove_all old 0 cs)"

definition rstrip_slash :: "string \<Rightarrow> string" where
  "rstrip_slash s = rev (dropWhile (\<lambda>c. c = CHR ''/'') (rev s))"

definition strip_slash :: "string \<Rightarrow> string" where
  "strip_slash s = dropWhile (\<lambda>c. c = CHR ''/'') (rstrip_slash s)"

definition removesuffix :: "string \<Rightarrow> string \<Rightarrow> string" where
  "removesuffix suf s = (if suf \<noteq> [] \<and> suffix suf s then take (length s - length suf) s else s)"

subsection \<open>Paths\<close>

text \<open>
  The components of a path string as \<^verbatim>\<open>pathlib\<close> parses it: empty components and
  \<open>.\<close> are dropped, \<open>..\<close> is kept.
\<close>

definition path_parts :: "string \<Rightarrow> string list" where
  "path_parts s = filter (\<lambda>c. c \<noteq> [] \<and> c \<noteq> ''.'') (split_char CHR ''/'' s)"

definition is_absolute :: "string \<Rightarrow> bool" where
  "is_absolute s = (case s of [] \<Rightarrow> False | c # cs \<Rightarrow> c = CHR ''/'')"

text \<open>
  \<^verbatim>\<open>Path.resolve()\<close> without symbolic links: \<open>..\<close> drops the last component and stays
  at the root. The stack is the resolved path so far, reversed.
\<close>

fun resolve_parts :: "string list \<Rightarrow> string list \<Rightarrow> string list" where
  "resolve_parts stack [] = rev stack"
| "resolve_parts stack (c # cs) =
     (if c = ''..'' then resolve_parts (case stack of [] \<Rightarrow> [] | d # below \<Rightarrow> below) cs
      else resolve_parts (c # stack) cs)"

text \<open>
  \<^verbatim>\<open>(root / rel).resolve()\<close> for a resolved directory \<open>root\<close>: joining an absolute
  \<open>rel\<close> replaces the root.
\<close>

definition resolve_under :: "string list \<Rightarrow> string \<Rightarrow> string list" where
  "resolve_under root rel =
     (if is_absolute rel then resolve_parts [] (path_parts rel)
      else resolve_parts (rev root) (path_parts rel))"

text \<open>\<^verbatim>\<open>(root / rel).resolve().is_relative_to(root)\<close>\<close>

definition inside :: "string list \<Rightarrow> string \<Rightarrow> bool" where
  "inside root rel = prefix root (resolve_under root rel)"

definition file_key :: "string list \<Rightarrow> string \<Rightarrow> string list" where
  "file_key root rel = drop (length root) (resolve_under root rel)"

subsection \<open>\<^verbatim>\<open>_safe_remove_directory\<close>\<close>

definition unlink :: "path \<Rightarrow> world \<Rightarrow> world" where
  "unlink p w = w\<lparr>fs := (fs w)(p := None), trace := trace w @ [Removed p]\<rparr>"

definition safe_remove_directory :: "env \<Rightarrow> path \<Rightarrow> world \<Rightarrow> bool \<times> world" where
  "safe_remove_directory e p w =
     (if fs w p = None then (True, w)
      else if rmtree_ok e p then (True, unlink p w)
      else if chmod_rmtree_ok e p then (True, unlink p w)
      else if sudo_remove_ok e p then (True, unlink p w)
      else (False, w))"

text \<open>
  \<^verbatim>\<open>if target_path.exists(): self._safe_remove_directory(target_path)\<close>, the result
  ignored.
\<close>

definition cleanup :: "env \<Rightarrow> path \<Rightarrow> world \<Rightarrow> world" where
  "cleanup e p w = (if fs w p \<noteq> None then snd (safe_remove_directory e p w) else w)"

definition mkdir :: "path \<Rightarrow> world \<Rightarrow> world" where
  "mkdir p w = (if fs w p = None then w\<lparr>fs := (fs w)(p \<mapsto> empty_dir)\<rparr> else w)"

definition write_file :: "path \<Rightarrow> string list \<Rightarrow> content \<Rightarrow> world \<Rightarrow> world" where
  "write_file p k c w =
     (let d = (case fs w p of Some d \<Rightarrow> d | None \<Rightarrow> empty_dir)
      in w\<lparr>fs := (fs w)(p \<mapsto> d\<lparr>files := (files d)(k \<mapsto> c)\<rparr>)\<rparr>)"

text \<open>
  The loop \<^verbatim>\<open>for candidate in candidates: if attempt(candidate): used = candidate; break\<close>.
\<close>

fun first_successful ::
  "('b \<Rightarrow> 's \<Rightarrow> bool \<times> 's) \<Rightarrow> 'b list \<Rightarrow> 's \<Rightarrow> 'b option \<times> 's" where
  "first_successful attempt [] s = (None, s)"
| "first_successful attempt (c # cs) s =
     (case attempt c s of
        (True, s') \<Rightarrow> (Some c, s')
      | (False, s') \<Rightarrow> first_successful attempt cs s')"

section \<open>Acquisition strategies\<close>

text \<open>
  The strategies return \<^verbatim>\<open>True\<close> or \<^verbatim>\<open>False\<close>; the model keeps, for each
  \<^verbatim>\<open>return False\<close>, the reason that the code logs there.
\<close>

datatype reason =
    NotInRegistry
  | MissingRepoUrl
  | CannotRemove path
  | AcquisitionFailed
  | NoManifest
  | ManifestMissingId
  | NoPluginId
  | MissingFields "string list"
  | Raised exn
  | BadRepoUrl
  | HttpStatus nat
  | Truncated
  | NoFilesFound
  | TooManyFiles nat
  | PathTraversal string
  | DownloadFailed string nat
  | EmptyArchive
  | SubpathNotInArchive
  | ZipSlip string

datatype outcome = Done | Failed reason

definition succeeded :: "outcome \<times> world \<Rightarrow> bool \<times> world" where
  "succeeded r = (case r of (Done, w) \<Rightarrow> (True, w) | (Failed x, w) \<Rightarrow> (False, w))"

subsection \<open>\<^verbatim>\<open>_install_from_monorepo_api\<close>: the partial-tree strategy\<close>

definition owner_and_repo :: "string \<Rightarrow> (string \<times> string) option" where
  "owner_and_repo repo_url =
     (let clean_url = rstrip_slash repo_url;
          clean_url = (if suffix ''.git'' clean_url
                       then take (length clean_url - 4) clean_url else clean_url);
          parts = split_char CHR ''/'' clean_url
      in if length parts < 2 then None
         else Some (parts ! (length parts - 2), parts ! (length parts - 1)))"

text \<open>
  The condition of the comprehension on one entry of the listing,
  \<^verbatim>\<open>entry['path'].startswith(prefix) and entry['type'] == 'blob'\<close>, with the exceptions
  that an entry of another shape raises.
\<close>

fun entry_selected :: "string \<Rightarrow> jval \<Rightarrow> exn + bool" where
  "entry_selected pre (JObj kvs) =
     (case map_of kvs ''path'' of
        None \<Rightarrow> Inl KeyError
      | Some (JStr p) \<Rightarrow>
          if prefix pre p then
            (case map_of kvs ''type'' of
               None \<Rightarrow> Inl KeyError
             | Some t \<Rightarrow> Inr (t = JStr ''blob''))
          else Inr False
      | Some other \<Rightarrow> Inl AttributeError)"
| "entry_selected pre other = Inl TypeError"

fun entry_path :: "jval \<Rightarrow> string" where
  "entry_path (JObj kvs) = (case map_of kvs ''path'' of Some (JStr p) \<Rightarrow> p | _ \<Rightarrow> [])"
| "entry_path other = []"

fun select_entries :: "string \<Rightarrow> jval list \<Rightarrow> exn + string list" where
  "select_entries pre [] = Inr []"
| "select_entries pre (entry # entries) =
     (case entry_selected pre entry of
        Inl x \<Rightarrow> Inl x
      | Inr keep \<Rightarrow>
          (case select_entries pre entries of
             Inl x \<Rightarrow> Inl x
           | Inr ps \<Rightarrow> Inr (if keep then entry_path entry # ps else ps)))"

text \<open>Iterating over \<^verbatim>\<open>tree_data.get('tree', [])\<close>.\<close>

fun py_iter :: "jval \<Rightarrow> exn + jval list" where
  "py_iter (JArr xs) = Inr xs"
| "py_iter (JObj kvs) = Inr (map (\<lambda>kv. JStr (fst kv)) kvs)"
| "py_iter (JStr s) = Inr (map (\<lambda>c. JStr [c]) s)"
| "py_iter JNull = Inl TypeError"
| "py_iter (JBool b) = Inl TypeError"
| "py_iter (JNum n) = Inl TypeError"

definition file_entries :: "string \<Rightarrow> jval \<Rightarrow> exn + string list" where
  "file_entries pre tree = (case py_iter tree of Inl x \<Rightarrow> Inl x | Inr es \<Rightarrow> select_entries pre es)"

definition max_files :: nat where
  "max_files = 500"

text \<open>
  What stands in the way of writing a file at key \<open>k\<close> of a directory with files \<open>fm\<close>:
  \<^verbatim>\<open>dest_file.parent.mkdir(parents=True, exist_ok=True)\<close> raises when a component of the
  parent is a file (\<^verbatim>\<open>FileExistsError\<close> when it is the parent itself,
  \<^verbatim>\<open>NotADirectoryError\<close> when it is further up), and \<^verbatim>\<open>write_bytes\<close> raises an
  \<^verbatim>\<open>IsADirectoryError\<close> when the destination is a directory: the target itself or a
  directory that holds files.
\<close>

definition blocking_file :: "(string list \<rightharpoonup> content) \<Rightarrow> string list \<Rightarrow> string list option" where
  "blocking_file fm k = find (\<lambda>k'. k' \<noteq> [] \<and> k' \<noteq> k \<and> fm k' \<noteq> None) (prefixes k)"

definition mkdir_parents :: "(string list \<rightharpoonup> content) \<Rightarrow> string list \<Rightarrow> exn option" where
  "mkdir_parents fm k =
     (case blocking_file fm k of
        None \<Rightarrow> None
      | Some k' \<Rightarrow> Some (if k' = butlast k then FileExistsError else NotADirectoryError))"

definition holds_files :: "(string list \<rightharpoonup> content) \<Rightarrow> string list \<Rightarrow> bool" where
  "holds_files fm k = (\<exists>k' \<in> dom fm. strict_prefix k k')"

definition files_at :: "world \<Rightarrow> path \<Rightarrow> (string list \<rightharpoonup> content)" where
  "files_at w p = (case fs w p of None \<Rightarrow> Map.empty | Some d \<Rightarrow> files d)"

text \<open>
  Step 3 of the strategy: for each selected entry, check that the destination resolves
  inside the target, create its parent directories, fetch the file from the raw-content
  host and write it. Every failure removes the target directory.
\<close>

fun download_entries ::
  "env \<Rightarrow> string \<Rightarrow> string \<Rightarrow> string \<Rightarrow> nat \<Rightarrow> path \<Rightarrow> string list \<Rightarrow> world \<Rightarrow> outcome \<times> world" where
  "download_entries e owner rp br prefix_len target [] w = (Done, w)"
| "download_entries e owner rp br prefix_len target (p # ps) w =
     (let rel_path = drop prefix_len p
      in if \<not> inside (location e target) rel_path then
           (Failed (PathTraversal p), cleanup e target w)
         else
           (case mkdir_parents (files_at w target) (file_key (location e target) rel_path) of
              Some x \<Rightarrow> (Failed (Raised x), cleanup e target w)
            | None \<Rightarrow>
                (case http_get_with_retries (http e (RawReq owner rp br p)) 3 of
                   None \<Rightarrow>
                     (Failed (Raised RequestException),
                      cleanup e target (emit (RawFetch owner rp br p) w))
                 | Some (status, body) \<Rightarrow>
                     if status \<noteq> 200 then
                       (Failed (DownloadFailed p status),
                        cleanup e target (emit (RawFetch owner rp br p) w))
                     else if file_key (location e target) rel_path = [] \<or>
                             holds_files (files_at w target) (file_key (location e target) rel_path)
                     then
                       (Failed (Raised IsADirectoryError),
                        cleanup e target (emit (RawFetch owner rp br p) w))
                     else
                       download_entries e owner rp br prefix_len target ps
                         (write_file target (file_key (location e target) rel_path) body
                            (emit (RawFetch owner rp br p) w)))))"

definition install_from_monorepo_api ::
  "env \<Rightarrow> string \<Rightarrow> string \<Rightarrow> string \<Rightarrow> path \<Rightarrow> world \<Rightarrow> outcome \<times> world" where
  "install_from_monorepo_api e repo_url br plugin_subpath target w =
     (case owner_and_repo repo_url of
        None \<Rightarrow> (Failed BadRepoUrl, w)
      | Some (owner, rp) \<Rightarrow>
          let w1 = emit (TreeListing owner rp br) w
          in case http_get_with_retries (http e (TreeReq owner rp br)) 3 of
               None \<Rightarrow> (Failed (Raised RequestException), cleanup e target w1)
             | Some (status, body) \<Rightarrow>
                 if status \<noteq> 200 then (Failed (HttpStatus status), w1)
                 else
                   (case response_json body of
                      Inl x \<Rightarrow> (Failed (Raised x), cleanup e target w1)
                    | Inr (JObj tree_data) \<Rightarrow>
                        if truthy (jget tree_data ''truncated'' JNull) then (Failed Truncated, w1)
                        else
                          let pre = strip_slash plugin_subpath @ ''/''
                          in (case file_entries pre (jget tree_data ''tree'' (JArr [])) of
                                Inl x \<Rightarrow> (Failed (Raised x), cleanup e target w1)
                              | Inr entries \<Rightarrow>
                                  if entries = [] then (Failed NoFilesFound, w1)
                                  else if length entries > max_files then
                                    (Failed (TooManyFiles (length entries)), w1)
                                  else
                                    download_entries e owner rp br (length pre) target entries
                                      (mkdir target w1))
                    | Inr other \<Rightarrow> (Failed (Raised AttributeError), cleanup e target w1)))"

subsection \<open>\<^verbatim>\<open>_install_from_monorepo_zip\<close> and \<^verbatim>\<open>_install_via_download\<close>: the archive strategies\<close>

text \<open>
  \<^verbatim>\<open>ZipFile.extract\<close> writes a member under the scratch directory at its name without
  the empty, \<open>.\<close> and \<open>..\<close> components; a member whose name ends in \<open>/\<close> is a directory.
\<close>

definition sanitized :: "string \<Rightarrow> string list" where
  "sanitized name =
     filter (\<lambda>c. c \<noteq> [] \<and> c \<noteq> ''.'' \<and> c \<noteq> ''..'') (split_char CHR ''/'' name)"

definition is_dir_member :: "string \<Rightarrow> bool" where
  "is_dir_member name = suffix ''/'' name"

text \<open>
  The scratch directory while an archive is extracted into it: its files and its
  directories, keyed by their components below the scratch directory (\<open>[]\<close> is the
  scratch directory itself).
\<close>

record unpacked =
  ufiles :: "string list \<rightharpoonup> content"
  udirs :: "string list set"

definition empty_unpacked :: unpacked where
  "empty_unpacked = \<lparr>ufiles = Map.empty, udirs = {[]}\<rparr>"

text \<open>
  Extracting one member: the directories above it are created, which raises when one of
  them is a file; a directory member is created, a file member is written, which raises
  when its place is taken by a directory.
\<close>

definition unpack_member :: "string \<times> content \<Rightarrow> unpacked \<Rightarrow> exn + unpacked" where
  "unpack_member m t =
     (if is_dir_member (fst m) then
        (if \<exists>k' \<in> set (prefixes (sanitized (fst m))). k' \<noteq> [] \<and> ufiles t k' \<noteq> None
         then Inl FileExistsError
         else Inr (t\<lparr>udirs := udirs t \<union> set (prefixes (sanitized (fst m)))\<rparr>))
      else
        (if \<exists>k' \<in> set (prefixes (butlast (sanitized (fst m)))). k' \<noteq> [] \<and> ufiles t k' \<noteq> None
         then Inl NotADirectoryError
         else if sanitized (fst m) \<in> udirs t then Inl IsADirectoryError
         else Inr (t\<lparr>ufiles := (ufiles t)(sanitized (fst m) \<mapsto> snd m),
                     udirs := udirs t \<union> set (prefixes (butlast (sanitized (fst m))))\<rparr>)))"

text \<open>
  The loop of \<^verbatim>\<open>_install_from_monorepo_zip\<close>: each member is checked against zip-slip
  and then extracted.
\<close>

fun unpack_checked :: "string list \<Rightarrow> (string \<times> content) list \<Rightarrow> unpacked \<Rightarrow> reason + unpacked" where
  "unpack_checked root [] t = Inr t"
| "unpack_checked root (m # ms) t =
     (if \<not> inside root (fst m) then Inl (ZipSlip (fst m))
      else (case unpack_member m t of
              Inl x \<Rightarrow> Inl (Raised x)
            | Inr t' \<Rightarrow> unpack_checked root ms t'))"

text \<open>\<^verbatim>\<open>ZipFile.extractall\<close>.\<close>

fun unpack_all :: "(string \<times> content) list \<Rightarrow> unpacked \<Rightarrow> exn + unpacked" where
  "unpack_all [] t = Inr t"
| "unpack_all (m # ms) t =
     (case unpack_member m t of
        Inl x \<Rightarrow> Inl x
      | Inr t' \<Rightarrow> unpack_all ms t')"

text \<open>
  Following a path from the scratch directory through the extracted directories: \<open>..\<close>
  goes one directory up, any other component must be an extracted directory. A path that
  climbs above the scratch directory is taken to lead nowhere.
\<close>

fun walk :: "string list set \<Rightarrow> string list \<Rightarrow> string list \<Rightarrow> string list option" where
  "walk ds cur [] = Some cur"
| "walk ds cur (c # cs) =
     (if c = ''..'' then (if cur = [] then None else walk ds (butlast cur) cs)
      else if cur @ [c] \<in> ds then walk ds (cur @ [c]) cs
      else None)"

text \<open>
  The directory \<^verbatim>\<open>temp_extract / root_dir / plugin_subpath\<close>, when it exists; an absolute
  sub-path, which names a directory outside the scratch directory, is taken to name none.
\<close>

definition source_plugin_dir :: "unpacked \<Rightarrow> string \<Rightarrow> string \<Rightarrow> string list option" where
  "source_plugin_dir t root_dir plugin_subpath =
     (if is_absolute plugin_subpath then None
      else walk (udirs t) [] (path_parts root_dir @ path_parts plugin_subpath))"

text \<open>
  The files below directory \<open>src\<close> of the scratch directory, keyed relative to \<open>src\<close>.
\<close>

definition subtree :: "unpacked \<Rightarrow> string list \<Rightarrow> (string list \<rightharpoonup> content)" where
  "subtree t src = (\<lambda>k. if k = [] then None else ufiles t (src @ k))"

definition archive_root :: "string \<Rightarrow> string" where
  "archive_root first_member = (case split_char CHR ''/'' first_member of r # rest \<Rightarrow> r | [] \<Rightarrow> [])"

definition install_from_monorepo_zip ::
  "env \<Rightarrow> string \<Rightarrow> string \<Rightarrow> path \<Rightarrow> world \<Rightarrow> outcome \<times> world" where
  "install_from_monorepo_zip e download_url plugin_subpath target w =
     (let w1 = emit (ArchiveDownload download_url) w
      in case http_get_with_retries (http e (ArchiveReq download_url)) 3 of
           None \<Rightarrow> (Failed (Raised RequestException), w1)
         | Some (status, body) \<Rightarrow>
             if error_status status then (Failed (Raised HTTPError), w1)
             else
               (case body of
                  ZipArchive members \<Rightarrow>
                    (case members of
                       [] \<Rightarrow> (Failed EmptyArchive, w1)
                     | first_member # rest \<Rightarrow>
                         let root_dir = archive_root (fst first_member);
                             plugin_prefix = root_dir @ ''/'' @ plugin_subpath @ ''/'';
                             plugin_members = filter (\<lambda>m. prefix plugin_prefix (fst m)) members
                         in if plugin_members = [] then (Failed SubpathNotInArchive, w1)
                            else
                              (case unpack_checked (extract_root e) plugin_members empty_unpacked of
                                 Inl x \<Rightarrow> (Failed x, w1)
                               | Inr t \<Rightarrow>
                                   (case safe_remove_directory e target w1 of
                                      (False, w2) \<Rightarrow> (Failed (CannotRemove target), w2)
                                    | (True, w2) \<Rightarrow>
                                        (case source_plugin_dir t root_dir plugin_subpath of
                                           None \<Rightarrow> (Failed (Raised FileNotFoundError), w2)
                                         | Some src \<Rightarrow>
                                             (Done, w2\<lparr>fs := (fs w2)(target \<mapsto>
                                                \<lparr>files = subtree t src, git = None\<rparr>)\<rparr>)))))
                | _ \<Rightarrow> (Failed (Raised BadZipFile), w1)))"

text \<open>
  \<^verbatim>\<open>shutil.move(src, dst)\<close> of a directory with files \<open>moved\<close> and base name \<open>name\<close>:
  a destination that does not exist becomes the directory; into an existing directory the
  source is moved as \<open>dst/name\<close>, and that raises when \<open>dst/name\<close> exists. A regular
  file at a path is the one key \<open>[]\<close>.
\<close>

definition below :: "string \<Rightarrow> (string list \<rightharpoonup> content) \<Rightarrow> (string list \<rightharpoonup> content)" where
  "below name moved = (\<lambda>k. case k of [] \<Rightarrow> None | c # cs \<Rightarrow> if c = name then moved cs else None)"

definition occupies :: "string \<Rightarrow> (string list \<rightharpoonup> content) \<Rightarrow> bool" where
  "occupies name fm = (\<exists>k \<in> dom fm. case k of [] \<Rightarrow> False | c # cs \<Rightarrow> c = name)"

definition move_into :: "string \<Rightarrow> (string list \<rightharpoonup> content) \<Rightarrow> path \<Rightarrow> world \<Rightarrow> outcome \<times> world" where
  "move_into name moved target w =
     (case fs w target of
        None \<Rightarrow> (Done, w\<lparr>fs := (fs w)(target \<mapsto> \<lparr>files = moved, git = None\<rparr>)\<rparr>)
      | Some d \<Rightarrow>
          if occupies name (files d) then (Failed (Raised ShutilError), w)
          else (Done, w\<lparr>fs := (fs w)(target \<mapsto> d\<lparr>files := files d ++ below name moved\<rparr>)\<rparr>))"

text \<open>
  What \<^verbatim>\<open>_install_via_download\<close> moves: \<^verbatim>\<open>temp_extract / root_dir\<close> when that
  exists, as a directory or as a regular file, and the whole scratch directory otherwise.
\<close>

definition whole_unpacked :: "unpacked \<Rightarrow> (string list \<rightharpoonup> content)" where
  "whole_unpacked t = (\<lambda>k. if k = [] then None else ufiles t k)"

definition install_via_download :: "env \<Rightarrow> string \<Rightarrow> path \<Rightarrow> world \<Rightarrow> outcome \<times> world" where
  "install_via_download e download_url target w =
     (let w1 = emit (ArchiveDownload download_url) w
      in case http_get_with_retries (http e (ArchiveReq download_url)) 3 of
           None \<Rightarrow> (Failed (Raised RequestException), w1)
         | Some (status, body) \<Rightarrow>
             if error_status status then (Failed (Raised HTTPError), w1)
             else
               (case body of
                  ZipArchive members \<Rightarrow>
                    (case members of
                       [] \<Rightarrow> (Failed EmptyArchive, w1)
                     | first_member # rest \<Rightarrow>
                         (case find (\<lambda>m. \<not> inside (extract_root e) (fst m)) members of
                            Some m \<Rightarrow> (Failed (ZipSlip (fst m)), w1)
                          | None \<Rightarrow>
                              (case unpack_all members empty_unpacked of
                                 Inl x \<Rightarrow> (Failed (Raised x), w1)
                               | Inr t \<Rightarrow>
                                   (case path_parts (archive_root (fst first_member)) of
                                      [] \<Rightarrow>
                                        move_into (last (extract_root e)) (whole_unpacked t) target w1
                                    | root_dir # none \<Rightarrow>
                                        if [root_dir] \<in> udirs t then
                                          move_into root_dir (subtree t [root_dir]) target w1
                                        else if ufiles t [root_dir] \<noteq> None then
                                          move_into root_dir
                                            (\<lambda>k. if k = [] then ufiles t [root_dir] else None)
                                            target w1
                                        else
                                          move_into (last (extract_root e)) (whole_unpacked t)
                                            target w1))))
                | _ \<Rightarrow> (Failed (Raised BadZipFile), w1)))"

subsection \<open>\<^verbatim>\<open>_install_from_monorepo\<close>\<close>

definition archive_marker :: string where
  "archive_marker = ''/archive/refs/heads/''"

definition parse_monorepo_download_url :: "string \<Rightarrow> string option \<times> string option" where
  "parse_monorepo_download_url download_url =
     (if contains download_url archive_marker then
        (case split_str archive_marker 0 [] download_url of
           repo_url # br # rest \<Rightarrow> (Some repo_url, Some (removesuffix ''.zip'' br))
         | _ \<Rightarrow> (None, None))
      else (None, None))"

definition install_from_monorepo ::
  "env \<Rightarrow> string \<Rightarrow> string \<Rightarrow> path \<Rightarrow> world \<Rightarrow> outcome \<times> world" where
  "install_from_monorepo e download_url plugin_subpath target w =
     (case parse_monorepo_download_url download_url of
        (Some repo_url, Some br) \<Rightarrow>
          if repo_url \<noteq> [] \<and> br \<noteq> [] then
            (case install_from_monorepo_api e repo_url br plugin_subpath target w of
               (Done, w1) \<Rightarrow> (Done, w1)
             | (Failed x, w1) \<Rightarrow>
                 install_from_monorepo_zip e download_url plugin_subpath target (cleanup e target w1))
          else install_from_monorepo_zip e download_url plugin_subpath target w
      | _ \<Rightarrow> install_from_monorepo_zip e download_url plugin_subpath target w)"

subsection \<open>\<^verbatim>\<open>_install_via_git\<close>\<close>

text \<open>
  One \<^verbatim>\<open>git clone\<close> into the target; git refuses a destination that exists and is not
  empty.
\<close>

definition git_clone :: "env \<Rightarrow> string \<Rightarrow> string option \<Rightarrow> path \<Rightarrow> world \<Rightarrow> bool \<times> world" where
  "git_clone e repo_url br target w =
     (let w1 = emit (GitClone repo_url br) w
      in case fs w1 target of
           Some d \<Rightarrow>
             if files d \<noteq> Map.empty \<or> git d \<noteq> None then (False, w1)
             else (case clone e repo_url br of
                     None \<Rightarrow> (False, w1)
                   | Some checkout \<Rightarrow> (True, w1\<lparr>fs := (fs w1)(target \<mapsto> checkout)\<rparr>))
         | None \<Rightarrow>
             (case clone e repo_url br of
                None \<Rightarrow> (False, w1)
              | Some checkout \<Rightarrow> (True, w1\<lparr>fs := (fs w1)(target \<mapsto> checkout)\<rparr>)))"

definition try_clone :: "env \<Rightarrow> string \<Rightarrow> path \<Rightarrow> string \<Rightarrow> world \<Rightarrow> bool \<times> world" where
  "try_clone e repo_url target try_branch w =
     (case git_clone e repo_url (Some try_branch) target w of
        (True, w1) \<Rightarrow> (True, w1)
      | (False, w1) \<Rightarrow> (False, cleanup e target w1))"

definition install_via_git ::
  "env \<Rightarrow> string \<Rightarrow> path \<Rightarrow> string list \<Rightarrow> world \<Rightarrow> string option \<times> world" where
  "install_via_git e repo_url target branches w =
     (let branches_to_try = distinct_sequence (map Some branches);
          branches_to_try = (if branches_to_try = [] then [''main'', ''master''] else branches_to_try)
      in case first_successful (try_clone e repo_url target) branches_to_try w of
           (Some b, w1) \<Rightarrow> (Some b, w1)
         | (None, w1) \<Rightarrow>
             (case git_clone e repo_url None target w1 of
                (True, w2) \<Rightarrow> (None, w2)
              | (False, w2) \<Rightarrow> (None, cleanup e target w2)))"

subsection \<open>\<^verbatim>\<open>_install_dependencies\<close>\<close>

definition install_dependencies :: "env \<Rightarrow> path \<Rightarrow> world \<Rightarrow> bool \<times> world" where
  "install_dependencies e p w =
     (case fs w p of
        None \<Rightarrow> (True, w)
      | Some d \<Rightarrow>
          if files d [''requirements.txt''] = None then (True, w)
          else (pip_ok e p, emit (PipInstall p) w))"

section \<open>Install, uninstall and update\<close>

text \<open>
  The plugin directories of a world are keyed by plugin ids that are single path
  components. For any other id (empty, \<open>.\<close>, \<open>..\<close>, or with a separator)
  \<^verbatim>\<open>self.plugins_dir / plugin_id\<close> is the plugins directory itself, a path inside a
  plugin directory or a path elsewhere, none of which a world represents: an operation
  that reaches such a path has the result \<open>Unrepresented\<close>.
\<close>

datatype 'a modelled = Unrepresented | Result 'a

definition single_component :: "string \<Rightarrow> bool" where
  "single_component i =
     (i \<noteq> [] \<and> i \<noteq> ''.'' \<and> i \<noteq> ''..'' \<and> CHR ''/'' \<notin> set i \<and> CHR 0x00 \<notin> set i)"


text \<open>
  \<^verbatim>\<open>install_plugin\<close> returns a boolean and \<^verbatim>\<open>install_from_url\<close> a dictionary with
  \<^verbatim>\<open>success\<close>; the model returns \<open>Installed i b\<close> for success, with the plugin id \<open>i\<close>
  under which the directory was committed and the value \<open>b\<close> of \<^verbatim>\<open>branch_used\<close>, and
  \<open>NotInstalled r\<close> for failure, with the reason logged or returned as \<^verbatim>\<open>error\<close>.
\<close>

datatype install_result = Installed string "string option" | NotInstalled reason

definition install_ok :: "install_result \<Rightarrow> bool" where
  "install_ok r = (case r of Installed i b \<Rightarrow> True | NotInstalled x \<Rightarrow> False)"

definition branch_candidates :: "string option \<Rightarrow> plugin_info \<Rightarrow> string list" where
  "branch_candidates requested info =
     distinct_sequence
       [requested, branch info, default_branch info, last_commit_branch info,
        Some ''main'', Some ''master'']"

text \<open>
  \<^verbatim>\<open>branch_used or plugin_info.get('branch') or plugin_info.get('default_branch', 'unknown')\<close>,
  the branch named in the success line of \<^verbatim>\<open>install_plugin\<close>.
\<close>

definition branch_display :: "string option \<Rightarrow> plugin_info \<Rightarrow> string" where
  "branch_display used info =
     (case used of
        Some b \<Rightarrow> if b \<noteq> [] then b
                  else if truthy_opt (branch info) then the_default [] (branch info)
                  else the_default ''unknown'' (default_branch info)
      | None \<Rightarrow> if truthy_opt (branch info) then the_default [] (branch info)
                else the_default ''unknown'' (default_branch info))"

definition download_url_for :: "string \<Rightarrow> string \<Rightarrow> string" where
  "download_url_for repo_url candidate = repo_url @ archive_marker @ candidate @ ''.zip''"

definition try_monorepo :: "env \<Rightarrow> string \<Rightarrow> string \<Rightarrow> path \<Rightarrow> string \<Rightarrow> world \<Rightarrow> bool \<times> world" where
  "try_monorepo e repo_url plugin_subpath target candidate w =
     succeeded (install_from_monorepo e (download_url_for repo_url candidate) plugin_subpath target w)"

definition try_download :: "env \<Rightarrow> string \<Rightarrow> path \<Rightarrow> string \<Rightarrow> world \<Rightarrow> bool \<times> world" where
  "try_download e repo_url target candidate w =
     succeeded (install_via_download e (download_url_for repo_url candidate) target w)"

text \<open>
  The acquisition part of \<^verbatim>\<open>install_plugin\<close> (the \<^verbatim>\<open>if plugin_subpath: ... else: ...\<close>
  block): \<open>None\<close> stands for its two \<^verbatim>\<open>return False\<close>, \<open>Some b\<close> for going on with
  \<^verbatim>\<open>branch_used = b\<close>.
\<close>

definition fetch_direct ::
  "env \<Rightarrow> string \<Rightarrow> string list \<Rightarrow> path \<Rightarrow> world \<Rightarrow> string option option \<times> world" where
  "fetch_direct e repo_url candidates target w =
     (case install_via_git e repo_url target candidates w of
        (used, w1) \<Rightarrow>
          (case (if used = None \<and> fs w1 target = None
                 then first_successful (try_download e repo_url target) candidates w1
                 else (used, w1)) of
             (used2, w2) \<Rightarrow>
               if used2 = None \<and> fs w2 target = None then (None, w2) else (Some used2, w2)))"

definition fetch_plugin ::
  "env \<Rightarrow> string \<Rightarrow> string option \<Rightarrow> string list \<Rightarrow> path \<Rightarrow> world \<Rightarrow> string option option \<times> world" where
  "fetch_plugin e repo_url plugin_subpath candidates target w =
     (if truthy_opt plugin_subpath then
        (case first_successful (try_monorepo e repo_url (the_default [] plugin_subpath) target)
                candidates w of
           (None, w1) \<Rightarrow> (None, w1)
         | (Some b, w1) \<Rightarrow> (Some (Some b), w1))
      else fetch_direct e repo_url candidates target w)"

definition manifest_key :: "string list" where
  "manifest_key = [''manifest.json'']"

definition required_fields :: "string list" where
  "required_fields = [''id'', ''name'', ''class_name'', ''display_modes'']"

definition missing_fields :: "(string \<times> jval) list \<Rightarrow> string list" where
  "missing_fields manifest = filter (\<lambda>field. map_of manifest field = None) required_fields"

text \<open>
  The class-name detection of \<^verbatim>\<open>install_plugin\<close>:
  \<^verbatim>\<open>plugin_path / manifest.get('entry_point', 'manager.py')\<close> raises a \<^verbatim>\<open>TypeError\<close>
  for an entry point that is not a string.
\<close>

definition detected_class :: "env \<Rightarrow> pdir \<Rightarrow> (string \<times> jval) list \<Rightarrow> exn + string option" where
  "detected_class e d manifest =
     (case jget manifest ''entry_point'' (JStr ''manager.py'') of
        JStr entry_point \<Rightarrow>
          (case files d (path_parts entry_point) of
             None \<Rightarrow> Inr None
           | Some c \<Rightarrow> Inr (if truthy_opt (class_in e c) then class_in e c else None))
      | _ \<Rightarrow> Inl TypeError)"

text \<open>
  Lines 901 to 932 of \<^verbatim>\<open>install_plugin\<close>: required fields, class-name detection,
  entry-point default and the rewrite of a modified manifest.
\<close>

definition complete_manifest ::
  "env \<Rightarrow> path \<Rightarrow> (string \<times> jval) list \<Rightarrow> world \<Rightarrow> outcome \<times> world" where
  "complete_manifest e p manifest w =
     (case fs w p of
        None \<Rightarrow> (Failed (Raised FileNotFoundError), w)
      | Some d \<Rightarrow>
          let missing = missing_fields manifest
          in case (if ''class_name'' \<in> set missing then detected_class e d manifest else Inr None) of
               Inl x \<Rightarrow> (Failed (Raised x), w)
             | Inr detected \<Rightarrow>
                 let manifest1 = (case detected of
                                    Some cn \<Rightarrow> manifest @ [(''class_name'', JStr cn)]
                                  | None \<Rightarrow> manifest);
                     missing1 = (case detected of
                                   Some cn \<Rightarrow> remove1 ''class_name'' missing
                                 | None \<Rightarrow> missing)
                 in if missing1 \<noteq> [] then (Failed (MissingFields missing1), w)
                    else
                      let manifest2 = (if map_of manifest1 ''entry_point'' = None
                                       then manifest1 @ [(''entry_point'', JStr ''manager.py'')]
                                       else manifest1);
                          manifest_modified =
                            (detected \<noteq> None \<or> map_of manifest1 ''entry_point'' = None)
                      in if manifest_modified
                         then (Done, write_file p manifest_key (JsonDoc (JObj manifest2)) w)
                         else (Done, w))"

definition check_and_commit ::
  "env \<Rightarrow> string \<Rightarrow> string option \<Rightarrow> (string \<times> jval) list \<Rightarrow> world \<Rightarrow> install_result \<times> world" where
  "check_and_commit e plugin_id used manifest w =
     (case complete_manifest e (Plugins plugin_id) manifest w of
        (Failed x, w1) \<Rightarrow> (NotInstalled x, snd (safe_remove_directory e (Plugins plugin_id) w1))
      | (Done, w1) \<Rightarrow>
          (case install_dependencies e (Plugins plugin_id) w1 of
             (deps_ok, w2) \<Rightarrow> (Installed plugin_id used, w2)))"

definition move_dir :: "path \<Rightarrow> path \<Rightarrow> world \<Rightarrow> world" where
  "move_dir src dst w = w\<lparr>fs := (fs w)(dst := fs w src, src := None)\<rparr>"

text \<open>
  Lines 866 to 944 of \<^verbatim>\<open>install_plugin\<close>: the manifest is read, the directory is renamed
  to the manifest's id, the manifest is validated and the dependencies are installed.
\<close>

definition validate_install ::
  "env \<Rightarrow> string \<Rightarrow> string option \<Rightarrow> world \<Rightarrow> (install_result \<times> world) modelled" where
  "validate_install e plugin_id used w =
     (case fs w (Plugins plugin_id) of
        None \<Rightarrow> Result (NotInstalled NoManifest, w)
      | Some d \<Rightarrow>
          (case files d manifest_key of
             None \<Rightarrow>
               Result (NotInstalled NoManifest, snd (safe_remove_directory e (Plugins plugin_id) w))
           | Some (JsonDoc (JObj manifest)) \<Rightarrow>
               if \<not> truthy (jget manifest ''id'' JNull) then
                 Result (NotInstalled ManifestMissingId,
                         snd (safe_remove_directory e (Plugins plugin_id) w))
               else
                 (case jget manifest ''id'' JNull of
                    JStr manifest_plugin_id \<Rightarrow>
                      if manifest_plugin_id \<noteq> plugin_id then
                        (if \<not> single_component manifest_plugin_id then Unrepresented
                         else
                           (case safe_remove_directory e (Plugins manifest_plugin_id) w of
                              (False, w1) \<Rightarrow>
                                Result (NotInstalled (CannotRemove (Plugins manifest_plugin_id)), w1)
                            | (True, w1) \<Rightarrow>
                                Result (check_and_commit e manifest_plugin_id used manifest
                                  (move_dir (Plugins plugin_id) (Plugins manifest_plugin_id) w1))))
                      else Result (check_and_commit e plugin_id used manifest w)
                  | _ \<Rightarrow>
                      Result (NotInstalled (Raised TypeError),
                              snd (safe_remove_directory e (Plugins plugin_id) w)))
           | Some (JsonDoc other) \<Rightarrow>
               Result (NotInstalled (Raised AttributeError),
                       snd (safe_remove_directory e (Plugins plugin_id) w))
           | Some other \<Rightarrow>
               Result (NotInstalled (Raised JSONDecodeError),
                       snd (safe_remove_directory e (Plugins plugin_id) w))))"

text \<open>
  \<^verbatim>\<open>install_plugin\<close>. The registry lookup and the check of the repository URL come
  before the first use of \<^verbatim>\<open>self.plugins_dir / plugin_id\<close>.
\<close>

definition install_plugin ::
  "env \<Rightarrow> string \<Rightarrow> string option \<Rightarrow> world \<Rightarrow> (install_result \<times> world) modelled" where
  "install_plugin e plugin_id requested w =
     (case registry_info e plugin_id of
        None \<Rightarrow> Result (NotInstalled NotInRegistry, w)
      | Some info \<Rightarrow>
          if \<not> truthy_opt (repo info) then Result (NotInstalled MissingRepoUrl, w)
          else if \<not> single_component plugin_id then Unrepresented
          else
            (case safe_remove_directory e (Plugins plugin_id) w of
               (False, w1) \<Rightarrow> Result (NotInstalled (CannotRemove (Plugins plugin_id)), w1)
             | (True, w1) \<Rightarrow>
                 (case fetch_plugin e (the_default [] (repo info)) (plugin_path info)
                         (branch_candidates requested info) (Plugins plugin_id) w1 of
                    (None, w2) \<Rightarrow> Result (NotInstalled AcquisitionFailed, w2)
                  | (Some used, w2) \<Rightarrow> validate_install e plugin_id used w2)))"

subsection \<open>\<^verbatim>\<open>install_from_url\<close>\<close>

definition url_candidates :: "string option \<Rightarrow> string list" where
  "url_candidates requested =
     (if truthy_opt requested then distinct_sequence [requested, Some ''main'', Some ''master'']
      else [''main'', ''master''])"

definition fetch_from_url ::
  "env \<Rightarrow> string \<Rightarrow> string option \<Rightarrow> string list \<Rightarrow> world \<Rightarrow> string option \<times> world" where
  "fetch_from_url e repo_url plugin_subpath candidates w =
     (if truthy_opt plugin_subpath then
        first_successful (try_monorepo e repo_url (the_default [] plugin_subpath) Temp) candidates w
      else
        (case install_via_git e repo_url Temp candidates w of
           (used, w1) \<Rightarrow>
             if truthy_opt used then (used, w1)
             else first_successful (try_download e repo_url Temp) candidates w1))"

text \<open>
  The part of \<^verbatim>\<open>install_from_url\<close> after the acquisition: manifest, plugin id, required
  fields, entry-point default, and the move of the temporary directory to
  \<^verbatim>\<open>self.plugins_dir / plugin_id\<close>.
\<close>

definition commit_from_temp ::
  "env \<Rightarrow> string option \<Rightarrow> string option \<Rightarrow> world \<Rightarrow> install_result \<times> world" where
  "commit_from_temp e plugin_id used w =
     (case fs w Temp of
        None \<Rightarrow> (NotInstalled NoManifest, w)
      | Some d \<Rightarrow>
          (case files d manifest_key of
             None \<Rightarrow> (NotInstalled NoManifest, w)
           | Some (JsonDoc (JObj manifest)) \<Rightarrow>
               let chosen_id = (if truthy_opt plugin_id then JStr (the_default [] plugin_id)
                                else jget manifest ''id'' JNull)
               in if \<not> truthy chosen_id then (NotInstalled NoPluginId, w)
                  else if missing_fields manifest \<noteq> [] then
                    (NotInstalled (MissingFields (missing_fields manifest)), w)
                  else
                    let w1 = (if map_of manifest ''entry_point'' = None
                              then write_file Temp manifest_key
                                     (JsonDoc (JObj (manifest @ [(''entry_point'', JStr ''manager.py'')]))) w
                              else w)
                    in (case chosen_id of
                          JStr final_id \<Rightarrow>
                            (case safe_remove_directory e (Plugins final_id) w1 of
                               (False, w2) \<Rightarrow> (NotInstalled (CannotRemove (Plugins final_id)), w2)
                             | (True, w2) \<Rightarrow>
                                 (case install_dependencies e (Plugins final_id)
                                         (move_dir Temp (Plugins final_id) w2) of
                                    (deps_ok, w3) \<Rightarrow> (Installed final_id used, w3)))
                        | _ \<Rightarrow> (NotInstalled (Raised TypeError), w1))
           | Some (JsonDoc other) \<Rightarrow> (NotInstalled (Raised AttributeError), w)
           | Some other \<Rightarrow> (NotInstalled (Raised JSONDecodeError), w)))"

text \<open>The \<^verbatim>\<open>finally\<close> block: \<^verbatim>\<open>shutil.rmtree(temp_dir, ignore_errors=True)\<close>.\<close>

definition discard_temp :: "env \<Rightarrow> world \<Rightarrow> world" where
  "discard_temp e w =
     (if fs w Temp \<noteq> None \<and> rmtree_ok e Temp then w\<lparr>fs := (fs w)(Temp := None)\<rparr> else w)"

definition install_from_url ::
  "env \<Rightarrow> string \<Rightarrow> string option \<Rightarrow> string option \<Rightarrow> string option \<Rightarrow> world
     \<Rightarrow> install_result \<times> world" where
  "install_from_url e given_url plugin_id plugin_subpath requested w =
     (let repo_url = remove_all ''.git'' 0 (rstrip_slash given_url);
          w0 = w\<lparr>fs := (fs w)(Temp \<mapsto> empty_dir)\<rparr>
      in case fetch_from_url e repo_url plugin_subpath (url_candidates requested) w0 of
           (None, w1) \<Rightarrow> (NotInstalled AcquisitionFailed, discard_temp e w1)
         | (Some b, w1) \<Rightarrow>
             (case commit_from_temp e plugin_id (Some b) w1 of
                (r, w2) \<Rightarrow> (r, discard_temp e w2)))"

subsection \<open>\<^verbatim>\<open>_find_plugin_path\<close>, \<^verbatim>\<open>uninstall_plugin\<close>\<close>

definition find_plugin_path :: "env \<Rightarrow> world \<Rightarrow> string \<Rightarrow> path option modelled" where
  "find_plugin_path e w plugin_id =
     (if \<not> single_component plugin_id then Unrepresented
      else if fs w (Plugins plugin_id) \<noteq> None then Result (Some (Plugins plugin_id))
      else if standard_distinct e \<and> fs w (Standard plugin_id) \<noteq> None
      then Result (Some (Standard plugin_id))
      else Result None)"


subsection \<open>\<^verbatim>\<open>update_plugin\<close>\<close>

definition normalize_repo_url :: "string \<Rightarrow> string" where
  "normalize_repo_url url = lower (removesuffix ''.git'' (rstrip_slash url))"

text \<open>
  The bundled marker: \<^verbatim>\<open>.plugin_metadata.json\<close> with \<^verbatim>\<open>install_type == 'bundled'\<close>.
  A file that is not JSON is skipped (\<^verbatim>\<open>ValueError\<close> is caught); a JSON document that
  is not an object raises an \<^verbatim>\<open>AttributeError\<close>, which goes to the outer handler.
\<close>

definition bundled_marker :: "pdir \<Rightarrow> exn + bool" where
  "bundled_marker d =
     (case files d [''.plugin_metadata.json''] of
        None \<Rightarrow> Inr False
      | Some (JsonDoc (JObj metadata)) \<Rightarrow> Inr (jget metadata ''install_type'' JNull = JStr ''bundled'')
      | Some (JsonDoc other) \<Rightarrow> Inl AttributeError
      | Some other \<Rightarrow> Inr False)"

text \<open>
  \<^verbatim>\<open>_get_local_git_info\<close>: \<open>None\<close> without a \<^verbatim>\<open>.git\<close> directory or when a git command
  fails; a detached \<open>HEAD\<close> gives the empty branch.
\<close>

definition get_local_git_info :: "env \<Rightarrow> pdir \<Rightarrow> exn + git_meta option" where
  "get_local_git_info e d =
     (case git d of
        None \<Rightarrow> Inr None
      | Some g \<Rightarrow>
          (case git_cli e of
             CliOk \<Rightarrow> Inr (Some (g\<lparr>head_branch := (if head_branch g = ''HEAD'' then [] else head_branch g)\<rparr>))
           | CliFails \<Rightarrow> Inr None
           | CliMissing \<Rightarrow> Inl FileNotFoundError))"

definition git_pull_update :: "env \<Rightarrow> path \<Rightarrow> world \<Rightarrow> bool \<times> world" where
  "git_pull_update e p w =
     (case fs w p of
        None \<Rightarrow> (False, w)
      | Some d \<Rightarrow> (case pull e p d of (ok, d') \<Rightarrow> (ok, w\<lparr>fs := (fs w)(p \<mapsto> d')\<rparr>)))"

text \<open>
  \<^verbatim>\<open>if not self._safe_remove_directory(plugin_path): return False\<close> followed by
  \<^verbatim>\<open>return self.install_plugin(plugin_id)\<close>.
\<close>

definition reinstall :: "env \<Rightarrow> string \<Rightarrow> path \<Rightarrow> world \<Rightarrow> (bool \<times> world) modelled" where
  "reinstall e plugin_id p w =
     (case safe_remove_directory e p w of
        (False, w1) \<Rightarrow> Result (False, w1)
      | (True, w1) \<Rightarrow>
          (case install_plugin e plugin_id None w1 of
             Unrepresented \<Rightarrow> Unrepresented
           | Result (r, w2) \<Rightarrow> Result (install_ok r, w2)))"

text \<open>The version-control branch of \<^verbatim>\<open>update_plugin\<close> (\<^verbatim>\<open>if git_info:\<close>).\<close>

definition update_via_git ::
  "env \<Rightarrow> string \<Rightarrow> path \<Rightarrow> git_meta \<Rightarrow> world \<Rightarrow> (bool \<times> world) modelled" where
  "update_via_git e plugin_id p git_info w =
     (case registry_info e plugin_id of
        None \<Rightarrow> Result (git_pull_update e p w)
      | Some plugin_info_remote \<Rightarrow>
          let local_sha = head_sha git_info;
              remote_sha = last_commit_sha plugin_info_remote;
              registry_repo = the_default [] (repo plugin_info_remote);
              local_remote = the_default [] (origin_url git_info)
          in if local_remote \<noteq> [] \<and> registry_repo \<noteq> [] \<and>
                normalize_repo_url local_remote \<noteq> normalize_repo_url registry_repo
             then reinstall e plugin_id p w
             else if truthy_opt remote_sha \<and> local_sha \<noteq> [] \<and>
                     prefix local_sha (the_default [] remote_sha)
             then Result (True, w)
             else Result (git_pull_update e p w))"

text \<open>The branch of \<^verbatim>\<open>update_plugin\<close> for a directory that is not a checkout.\<close>

definition local_version_matches :: "pdir \<Rightarrow> plugin_info \<Rightarrow> bool" where
  "local_version_matches d info =
     (case files d manifest_key of
        Some (JsonDoc (JObj local_manifest)) \<Rightarrow>
          truthy (jget local_manifest ''version'' (JStr [])) \<and> truthy_opt (latest_version info) \<and>
          jget local_manifest ''version'' (JStr []) = JStr (the_default [] (latest_version info))
      | _ \<Rightarrow> False)"

definition update_via_archive ::
  "env \<Rightarrow> string \<Rightarrow> path \<Rightarrow> pdir \<Rightarrow> world \<Rightarrow> (bool \<times> world) modelled" where
  "update_via_archive e plugin_id p d w =
     (case registry_info e plugin_id of
        None \<Rightarrow>
          if truthy_opt (local_config_url e p) then
            (case install_from_url e (the_default [] (local_config_url e p)) (Some plugin_id) None
                    (Some (if truthy_opt (abbrev_ref e p) \<and> abbrev_ref e p \<noteq> Some ''HEAD''
                           then the_default [] (abbrev_ref e p) else ''main'')) w of
               (r, w1) \<Rightarrow> Result (install_ok r, w1))
          else Result (False, w)
      | Some plugin_info_remote \<Rightarrow>
          if local_version_matches d plugin_info_remote then Result (True, w)
          else reinstall e plugin_id p w)"

definition update_plugin :: "env \<Rightarrow> string \<Rightarrow> world \<Rightarrow> (bool \<times> world) modelled" where
  "update_plugin e plugin_id w =
     (case find_plugin_path e w plugin_id of
        Unrepresented \<Rightarrow> Unrepresented
      | Result None \<Rightarrow> Result (False, w)
      | Result (Some p) \<Rightarrow>
          (case fs w p of
             None \<Rightarrow> Result (False, w)
           | Some d \<Rightarrow>
               (case bundled_marker d of
                  Inl x \<Rightarrow> Result (False, w)
                | Inr True \<Rightarrow> Result (True, w)
                | Inr False \<Rightarrow>
                    (case get_local_git_info e d of
                       Inl x \<Rightarrow> Result (False, w)
                     | Inr (Some git_info) \<Rightarrow> update_via_git e plugin_id p git_info w
                     | Inr None \<Rightarrow> update_via_archive e plugin_id p d w))))"

section \<open>Order of the strategy attempts\<close>

text \<open>
  The attempts of the two monorepo strategies that a trace records: a tree listing for a
  branch starts a partial-tree attempt, an archive download starts an archive attempt.
\<close>

datatype attempt = TreeAttempt string | ArchiveAttempt string

fun strategy_attempts :: "event list \<Rightarrow> attempt list" where
  "strategy_attempts [] = []"
| "strategy_attempts (TreeListing owner rp b # evs) = TreeAttempt b # strategy_attempts evs"
| "strategy_attempts (ArchiveDownload url # evs) = ArchiveAttempt url # strategy_attempts evs"
| "strategy_attempts (RawFetch owner rp b p # evs) = strategy_attempts evs"
| "strategy_attempts (GitClone url b # evs) = strategy_attempts evs"
| "strategy_attempts (Removed p # evs) = strategy_attempts evs"
| "strategy_attempts (PipInstall p # evs) = strategy_attempts evs"

text \<open>No partial-tree attempt comes after an archive attempt.\<close>

fun is_tree_attempt :: "attempt \<Rightarrow> bool" where
  "is_tree_attempt (TreeAttempt b) = True"
| "is_tree_attempt (ArchiveAttempt url) = False"

fun no_tree_after_archive :: "attempt list \<Rightarrow> bool" where
  "no_tree_after_archive [] = True"
| "no_tree_after_archive (TreeAttempt b # xs) = no_tree_after_archive xs"
| "no_tree_after_archive (ArchiveAttempt url # xs) = (filter is_tree_attempt xs = [])"

text \<open>
  The order in which the loop of \<open>install_plugin\<close> goes through the candidates: for each
  candidate the partial-tree attempt, then the archive attempt of the same candidate.
\<close>

definition per_candidate_order :: "string \<Rightarrow> string list \<Rightarrow> attempt list" where
  "per_candidate_order repo_url cs =
     concat (map (\<lambda>c. [TreeAttempt c, ArchiveAttempt (download_url_for repo_url c)]) cs)"

text \<open>
  The partial-tree attempt that \<open>install_from_monorepo\<close> makes for a download URL, when
  it makes one: the URL parses into a repository URL and a branch, both non-empty, and the
  repository URL into an owner and a repository (otherwise the partial-tree strategy
  returns before any request).
\<close>

definition tree_attempt_for :: "string \<Rightarrow> (string \<times> string) option" where
  "tree_attempt_for download_url =
     (case parse_monorepo_download_url download_url of
        (Some repo_url, Some br) \<Rightarrow>
          if repo_url \<noteq> [] \<and> br \<noteq> [] \<and> owner_and_repo repo_url \<noteq> None
          then Some (repo_url, br) else None
      | _ \<Rightarrow> None)"

text \<open>Whether the partial-tree attempt for a download URL is made and succeeds.\<close>

definition tree_done :: "env \<Rightarrow> string \<Rightarrow> string \<Rightarrow> path \<Rightarrow> world \<Rightarrow> bool" where
  "tree_done e download_url plugin_subpath target w =
     (case tree_attempt_for download_url of
        Some (repo_url, br) \<Rightarrow>
          fst (install_from_monorepo_api e repo_url br plugin_subpath target w) = Done
      | None \<Rightarrow> False)"

text \<open>
  The attempts of one turn of the loop, for one download URL: the partial-tree attempt,
  when one is made, and the archive attempt unless the partial-tree attempt succeeded.
\<close>

definition turn_attempts :: "string \<Rightarrow> bool \<Rightarrow> attempt list" where
  "turn_attempts download_url done =
     (case tree_attempt_for download_url of
        Some (repo_url, br) \<Rightarrow>
          if done then [TreeAttempt br] else [TreeAttempt br, ArchiveAttempt download_url]
      | None \<Rightarrow> [ArchiveAttempt download_url])"

definition failed_turn :: "string \<Rightarrow> string \<Rightarrow> attempt list" where
  "failed_turn repo_url c = turn_attempts (download_url_for repo_url c) False"

section \<open>Conditions on the environment\<close>

text \<open>Some stage of \<open>safe_remove_directory\<close> removes the path.\<close>

definition removable :: "env \<Rightarrow> path \<Rightarrow> bool" where
  "removable e p = (rmtree_ok e p \<or> chmod_rmtree_ok e p \<or> sudo_remove_ok e p)"

text \<open>
  The destination of a listed entry, its path without the first \<open>n\<close> characters,
  resolves outside the directory \<open>root\<close>.
\<close>

definition escapes :: "string list \<Rightarrow> nat \<Rightarrow> string \<Rightarrow> bool" where
  "escapes root n p = (\<not> inside root (drop n p))"

text \<open>
  The listed entries \<open>ps\<close> can be fetched and written one after the other into a
  directory that holds the files \<open>fm\<close>: for each in turn the parent directories can be
  created, the request answers 200, and the destination is not a directory.
\<close>

fun fetched_in_turn ::
  "env \<Rightarrow> string \<Rightarrow> string \<Rightarrow> string \<Rightarrow> path \<Rightarrow> nat \<Rightarrow> (string list \<rightharpoonup> content) \<Rightarrow> string list \<Rightarrow> bool" where
  "fetched_in_turn e owner rp br target n fm [] = True"
| "fetched_in_turn e owner rp br target n fm (p # ps) =
     (mkdir_parents fm (file_key (location e target) (drop n p)) = None \<and>
      (case http_get_with_retries (http e (RawReq owner rp br p)) 3 of
         None \<Rightarrow> False
       | Some (status, body) \<Rightarrow>
           status = 200 \<and> file_key (location e target) (drop n p) \<noteq> [] \<and>
           \<not> holds_files fm (file_key (location e target) (drop n p)) \<and>
           fetched_in_turn e owner rp br target n
             (fm(file_key (location e target) (drop n p) \<mapsto> body)) ps))"

text \<open>The prefix that the archive strategy of a sub-path looks for among the members.\<close>

definition plugin_prefix_of :: "(string \<times> content) list \<Rightarrow> string \<Rightarrow> string" where
  "plugin_prefix_of members plugin_subpath =
     (case members of
        [] \<Rightarrow> []
      | first_member # rest \<Rightarrow> archive_root (fst first_member) @ ''/'' @ plugin_subpath @ ''/'')"

section \<open>Example environments\<close>

text \<open>
  Concrete environments and directories on which the theorems below are run. In
  \<open>offline_env\<close> every request fails, every clone fails, and \<^verbatim>\<open>shutil.rmtree\<close>
  removes whatever it is asked to.
\<close>

definition offline_env :: env where
  "offline_env =
     \<lparr>http = (\<lambda>rq attempt. None),
      clone = (\<lambda>url b. None),
      rmtree_ok = (\<lambda>p. True),
      chmod_rmtree_ok = (\<lambda>p. False),
      sudo_remove_ok = (\<lambda>p. False),
      location = (\<lambda>p. case p of
                        Plugins i \<Rightarrow> [''opt'', ''ledmatrix'', ''plugin-repos'', i]
                      | Standard i \<Rightarrow> [''opt'', ''ledmatrix'', ''plugins'', i]
                      | Temp \<Rightarrow> [''tmp'', ''ledmatrix_plugin_a1'']),
      extract_root = [''tmp'', ''tmpb2''],
      registry_info = (\<lambda>i. None),
      class_in = (\<lambda>c. None),
      pip_ok = (\<lambda>p. True),
      standard_distinct = True,
      git_cli = CliOk,
      pull = (\<lambda>p d. (False, d)),
      local_config_url = (\<lambda>p. None),
      abbrev_ref = (\<lambda>p. None)\<rparr>"

definition empty_world :: world where
  "empty_world = \<lparr>fs = Map.empty, trace = []\<rparr>"

definition clock_manifest :: "(string \<times> jval) list" where
  "clock_manifest =
     [(''id'', JStr ''clock''), (''name'', JStr ''Clock''), (''class_name'', JStr ''ClockPlugin''),
      (''display_modes'', JArr [JStr ''clock'']), (''entry_point'', JStr ''manager.py'')]"

definition clock_checkout :: pdir where
  "clock_checkout =
     \<lparr>files = [manifest_key \<mapsto> JsonDoc (JObj clock_manifest), [''manager.py''] \<mapsto> Bytes ''class ClockPlugin(BasePlugin): pass''],
      git = Some \<lparr>head_sha = ''4f2a9c1d'', head_branch = ''main'',
                 origin_url = Some ''https://github.com/acme/clock''\<rparr>\<rparr>"

text \<open>A host where \<^verbatim>\<open>git clone --branch main\<close> of the clock repository succeeds.\<close>

definition clock_env :: env where
  "clock_env =
     offline_env\<lparr>clone := (\<lambda>url b. if url = ''https://github.com/acme/clock'' \<and> b = Some ''main''
                                 then Some clock_checkout else None)\<rparr>"

text \<open>
  The registry entry of the clock plugin: no sub-path, registry branch \<open>dev\<close> (which the
  repository of \<open>clock_env\<close> does not have).
\<close>

definition clock_info :: plugin_info where
  "clock_info =
     \<lparr>repo = Some ''https://github.com/acme/clock'', plugin_path = None, branch = Some ''dev'',
      default_branch = Some ''main'', last_commit_branch = Some ''dev'',
      last_commit_sha = Some ''4f2a9c1d77e0'', latest_version = Some ''1.2.0''\<rparr>"

definition clock_registry_env :: env where
  "clock_registry_env =
     clock_env\<lparr>registry_info := (\<lambda>i. if i = ''clock'' then Some clock_info else None)\<rparr>"

text \<open>
  A registry whose entry for \<open>hello-world\<close> is a sub-path of a shared repository, on a
  host without network.
\<close>

definition hello_info :: plugin_info where
  "hello_info =
     \<lparr>repo = Some ''https://github.com/acme/ledmatrix-plugins'',
      plugin_path = Some ''plugins/hello-world'', branch = None,
      default_branch = Some ''main'', last_commit_branch = None,
      last_commit_sha = None, latest_version = Some ''1.0.0''\<rparr>"

definition hello_offline_env :: env where
  "hello_offline_env =
     offline_env\<lparr>registry_info := (\<lambda>i. if i = ''hello-world'' then Some hello_info else None)\<rparr>"


definition migrated_info :: plugin_info where
  "migrated_info =
     clock_info\<lparr>repo := Some ''https://github.com/acme/ledmatrix-plugins'',
                plugin_path := Some ''plugins/clock''\<rparr>"

definition migrated_env :: env where
  "migrated_env =
     offline_env\<lparr>registry_info := (\<lambda>i. if i = ''clock'' then Some migrated_info else None)\<rparr>"

text \<open>
  The shared repository as a host that serves it sees it: the tree listing of \<open>main\<close> has
  the manifest of \<open>hello-world\<close> and an entry whose path leaves the plugin directory; the
  archive of \<open>main\<close> has the plugin's two files.
\<close>

definition hello_manifest :: "(string \<times> jval) list" where
  "hello_manifest =
     [(''id'', JStr ''hello-world''), (''name'', JStr ''Hello World''),
      (''class_name'', JStr ''HelloPlugin''), (''display_modes'', JArr [JStr ''hello''])]"

definition hello_tree :: jval where
  "hello_tree =
     JObj [(''sha'', JStr ''9b1c''),
           (''tree'',
            JArr [JObj [(''path'', JStr ''README.md''), (''type'', JStr ''blob'')],
                  JObj [(''path'', JStr ''plugins/hello-world''), (''type'', JStr ''tree'')],
                  JObj [(''path'', JStr ''plugins/hello-world/manifest.json''),
                        (''type'', JStr ''blob'')],
                  JObj [(''path'', JStr ''plugins/hello-world/../../evil.py''),
                        (''type'', JStr ''blob'')]]),
           (''truncated'', JBool False)]"

definition hello_archive :: "(string \<times> content) list" where
  "hello_archive =
     [(''ledmatrix-plugins-main/'', Bytes []),
      (''ledmatrix-plugins-main/README.md'', Bytes ''plugins''),
      (''ledmatrix-plugins-main/plugins/hello-world/'', Bytes []),
      (''ledmatrix-plugins-main/plugins/hello-world/manifest.json'', JsonDoc (JObj hello_manifest)),
      (''ledmatrix-plugins-main/plugins/hello-world/manager.py'',
       Bytes ''class HelloPlugin(BasePlugin): pass'')]"

definition hello_http :: "request \<Rightarrow> nat \<Rightarrow> response option" where
  "hello_http rq attempt =
     (case rq of
        TreeReq owner rp b \<Rightarrow>
          if owner = ''acme'' \<and> rp = ''ledmatrix-plugins'' \<and> b = ''main''
          then Some (200, JsonDoc hello_tree) else Some (404, Bytes ''Not Found'')
      | RawReq owner rp b p \<Rightarrow>
          if p = ''plugins/hello-world/manifest.json''
          then Some (200, JsonDoc (JObj hello_manifest)) else Some (404, Bytes ''Not Found'')
      | ArchiveReq url \<Rightarrow>
          if url = ''https://github.com/acme/ledmatrix-plugins/archive/refs/heads/main.zip''
          then Some (200, ZipArchive hello_archive) else Some (404, Bytes ''Not Found'')
      | RegistryReq \<Rightarrow> None)"

definition hello_env :: env where
  "hello_env = hello_offline_env\<lparr>http := hello_http\<rparr>"

text \<open>
  A host that answers every archive download with an archive in which a member below the
  plugin's sub-path climbs out of the scratch directory.
\<close>

definition slip_archive :: "(string \<times> content) list" where
  "slip_archive =
     [(''ledmatrix-plugins-main/'', Bytes []),
      (''ledmatrix-plugins-main/plugins/hello-world/manifest.json'', JsonDoc (JObj hello_manifest)),
      (''ledmatrix-plugins-main/plugins/hello-world/../../../../etc/cron.d/job'', Bytes ''* * * * *'')]"

definition slip_env :: env where
  "slip_env = hello_offline_env\<lparr>http := (\<lambda>rq attempt. case rq of
                  ArchiveReq url \<Rightarrow> Some (200, ZipArchive slip_archive)
                | _ \<Rightarrow> None)\<rparr>"

text \<open>
  A host where \<^verbatim>\<open>git clone --branch b\<close> of the clock repository fails for every branch
  \<open>b\<close> and the clone without a branch succeeds (the remote's default branch has another
  name).
\<close>

definition trunk_env :: env where
  "trunk_env =
     offline_env\<lparr>clone := (\<lambda>url b. if url = ''https://github.com/acme/clock'' \<and> b = None
                                 then Some clock_checkout else None),
                 registry_info := (\<lambda>i. if i = ''clock'' then Some clock_info else None)\<rparr>"

text \<open>
  A host that serves the shared repository from its branch \<open>master\<close> only, and only as an
  archive: every tree listing and the archive of \<open>main\<close> answer 404.
\<close>

definition master_archive :: "(string \<times> content) list" where
  "master_archive =
     [(''ledmatrix-plugins-master/'', Bytes []),
      (''ledmatrix-plugins-master/plugins/hello-world/'', Bytes []),
      (''ledmatrix-plugins-master/plugins/hello-world/manifest.json'', JsonDoc (JObj hello_manifest)),
      (''ledmatrix-plugins-master/plugins/hello-world/manager.py'',
       Bytes ''class HelloPlugin(BasePlugin): pass'')]"

definition master_env :: env where
  "master_env =
     hello_offline_env\<lparr>http := (\<lambda>rq attempt. case rq of
        ArchiveReq url \<Rightarrow>
          if url = ''https://github.com/acme/ledmatrix-plugins/archive/refs/heads/master.zip''
          then Some (200, ZipArchive master_archive) else Some (404, Bytes ''Not Found'')
      | _ \<Rightarrow> Some (404, Bytes ''Not Found''))\<rparr>"

(*THEOREMS*)
section \<open>Verified properties\<close>

subsection \<open>Token validation\<close>

text \<open>
  Claim C6. For a non-empty token: when the cache holds an entry for the first ten
  characters of the token that is less than five minutes old, that entry is returned and no
  probe is made, whatever the network would answer. Otherwise the probe is made, and a 200
  response gives (valid) and is cached; a 401 gives (invalid) and is cached; a 403 whose
  lower-cased body contains "rate limit" gives (invalid) and leaves the cache as it was; any
  other 403 gives (insufficient permission) and is cached; a timeout or a network error
  leaves the cache as it was.
\<close>

theorem validate_github_token_cases:
  "token \<noteq> [] \<Longrightarrow>
   (case fresh_entry cache token now of
      Some hit \<Rightarrow>
        validate_github_token net now now' token cache =
          \<lparr>verdict = hit, cache_after = cache, probed = False\<rparr>
    | None \<Rightarrow>
        validate_github_token (Responded 200 body) now now' token cache =
          \<lparr>verdict = (True, None),
           cache_after = cache(take 10 token \<mapsto> (True, now', None)), probed = True\<rparr>
      \<and> validate_github_token (Responded 401 body) now now' token cache =
          \<lparr>verdict = (False, Some TokenInvalidOrExpired),
           cache_after = cache(take 10 token \<mapsto> (False, now', Some TokenInvalidOrExpired)),
           probed = True\<rparr>
      \<and> validate_github_token (Responded 403 body) now now' token cache =
          (if contains (lower body) ''rate limit''
           then \<lparr>verdict = (False, Some RateLimitExceeded), cache_after = cache, probed = True\<rparr>
           else \<lparr>verdict = (False, Some TokenLacksPermissions),
                 cache_after = cache(take 10 token \<mapsto> (False, now', Some TokenLacksPermissions)),
                 probed = True\<rparr>)
      \<and> validate_github_token TimedOut now now' token cache =
          \<lparr>verdict = (False, Some RequestTimedOut), cache_after = cache, probed = True\<rparr>
      \<and> validate_github_token (NetworkFailed e) now now' token cache =
          \<lparr>verdict = (False, Some (NetworkError e)), cache_after = cache, probed = True\<rparr>)"
  by (auto simp: validate_github_token_def fresh_entry_def token_validation_cache_timeout_def
           split: option.splits prod.splits)

theorem validate_github_token_cases_witness:
  "validate_github_token (Responded 403 ''API Rate Limit exceeded'') 1000 1001 ''ghp_0123456789abcdef''
     Map.empty =
     \<lparr>verdict = (False, Some RateLimitExceeded), cache_after = Map.empty, probed = True\<rparr>
   \<and> validate_github_token TimedOut 1299 1300 ''ghp_0123456789abcdef''
       [''ghp_012345'' \<mapsto> (True, 1000, None)] =
     \<lparr>verdict = (True, None), cache_after = [''ghp_012345'' \<mapsto> (True, 1000, None)],
      probed = False\<rparr>"
proof -
  have ne: "''ghp_0123456789abcdef'' \<noteq> []" by simp
  have a: "fresh_entry Map.empty ''ghp_0123456789abcdef'' 1000 = None"
    by (simp add: fresh_entry_def)
  have b: "fresh_entry [''ghp_012345'' \<mapsto> (True, 1000, None)] ''ghp_0123456789abcdef'' 1299
            = Some (True, None)"
    by (simp add: fresh_entry_def)
  have c: "contains (lower ''API Rate Limit exceeded'') ''rate limit''"
    by (simp add: lower_def lower_char_def)
  from validate_github_token_cases [OF ne, where cache = Map.empty and now = 1000 and now' = 1001
      and body = "''API Rate Limit exceeded''"]
    a c
  have 1: "validate_github_token (Responded 403 ''API Rate Limit exceeded'') 1000 1001
             ''ghp_0123456789abcdef'' Map.empty =
           \<lparr>verdict = (False, Some RateLimitExceeded), cache_after = Map.empty, probed = True\<rparr>"
    by simp
  from validate_github_token_cases [OF ne, where cache = "[''ghp_012345'' \<mapsto> (True, 1000, None)]"
      and now = 1299 and net = TimedOut and now' = 1300] b
  have 2: "validate_github_token TimedOut 1299 1300 ''ghp_0123456789abcdef''
       [''ghp_012345'' \<mapsto> (True, 1000, None)] =
     \<lparr>verdict = (True, None), cache_after = [''ghp_012345'' \<mapsto> (True, 1000, None)],
      probed = False\<rparr>"
    by simp
  from 1 2 show ?thesis by simp
qed

subsection \<open>Registry catalog\<close>

text \<open>
  Claim C7. The claim says that \<open>fetch_registry\<close> never raises. With an empty cache and a
  200 response whose body is the JSON document \<^verbatim>\<open>{"plugins": null}\<close>, the method stores
  the document in the cache and then evaluates \<^verbatim>\<open>len(None)\<close> for its log line: a
  \<^verbatim>\<open>TypeError\<close>, which neither handler catches, leaves the method.
\<close>

theorem fetch_registry_null_plugins_raises:
  "fetch_registry (\<lambda>attempt. Some (200, JsonDoc (JObj [(''plugins'', JNull)]))) 1000 False
     \<lparr>registry_cache = None, registry_cache_time = None\<rparr> =
   \<lparr>returned = Inl TypeError,
    state_after = \<lparr>registry_cache = Some (JObj [(''plugins'', JNull)]),
                   registry_cache_time = Some 1000\<rparr>,
    fetched = True\<rparr>"
  by (simp add: fetch_registry_def cache_usable_def http_get_with_retries_def error_status_def
        response_json_def jget_def numeral_3_eq_3)

text \<open>The definitions that running an install on a concrete environment unfolds.\<close>

lemmas eval_defs = clock_registry_env_def clock_env_def offline_env_def empty_world_def rstrip_slash_def
      fetch_from_url_def url_candidates_def truthy_opt_def install_via_git_def distinct_sequence_def
      try_clone_def git_clone_def emit_def empty_dir_def clock_checkout_def commit_from_temp_def
      manifest_key_def clock_manifest_def jget_def the_default_def missing_fields_def required_fields_def
      safe_remove_directory_def install_dependencies_def move_dir_def discard_temp_def
      install_plugin_def clock_info_def branch_candidates_def fetch_plugin_def fetch_direct_def
      validate_install_def check_and_commit_def complete_manifest_def cleanup_def unlink_def


subsection \<open>Directory name and manifest id\<close>

text \<open>
  Claim C1. The claim says that after every successful install the directory is named by
  the \<open>id\<close> of its manifest, also for \<open>install_from_url\<close> with a caller-supplied plugin
  id. Installing the clock repository, whose manifest has the id \<open>clock\<close>, by URL with the
  plugin id \<open>wall-clock\<close> succeeds, and the directory is \<open>wall-clock\<close>: the caller's id
  wins in \<^verbatim>\<open>plugin_id = plugin_id or manifest.get('id')\<close>.
\<close>

theorem install_from_url_keeps_supplied_id:
  "install_from_url clock_env ''https://github.com/acme/clock.git'' (Some ''wall-clock'') None None
     empty_world =
     (Installed ''wall-clock'' (Some ''main''),
      \<lparr>fs = [Plugins ''wall-clock'' \<mapsto> clock_checkout],
       trace = [GitClone ''https://github.com/acme/clock'' (Some ''main'')]\<rparr>)
   \<and> files clock_checkout manifest_key = Some (JsonDoc (JObj clock_manifest))
   \<and> jget clock_manifest ''id'' JNull = JStr ''clock''"
  by (simp add: install_from_url_def eval_defs Let_def)

subsection \<open>Uninstall\<close>



subsection \<open>Branch candidates\<close>

text \<open>
  The loop of \<open>distinct_sequence\<close> computes what the specification describes: the present
  entries, each at its first occurrence.
\<close>

lemma distinct_loop_spec:
  "distinct_loop vs seen ordered =
     ordered @ first_occurrences (filter (\<lambda>v. v \<notin> seen) (present_entries vs))"
proof (induction vs seen ordered rule: distinct_loop.induct)
  case (1 seen ordered)
  then show ?case by simp
next
  case (2 vs seen ordered)
  then show ?case by simp
next
  case (3 v vs seen ordered)
  have eq: "filter (\<lambda>y. y \<noteq> v) (filter (\<lambda>x. x \<notin> seen) xs) = filter (\<lambda>x. x \<noteq> v \<and> x \<notin> seen) xs" for xs
    by (induction xs) auto
  have sw: "(\<lambda>x. x \<notin> seen \<and> x \<noteq> v) = (\<lambda>x. x \<noteq> v \<and> x \<notin> seen)" by auto
  from 3 show ?case by (simp add: eq sw)
qed

lemma distinct_sequence_spec: "distinct_sequence vs = first_occurrences (present_entries vs)"
  by (simp add: distinct_sequence_def distinct_loop_spec)

lemma first_successful_Some:
  "first_successful attempt cs s = (Some c, s') \<Longrightarrow>
     \<exists>before after s1. cs = before @ c # after \<and>
        first_successful attempt before s = (None, s1) \<and> attempt c s1 = (True, s')"
proof (induction cs arbitrary: s)
  case Nil
  then show ?case by simp
next
  case (Cons a cs)
  obtain ok s1 where a: "attempt a s = (ok, s1)" by (cases "attempt a s")
  show ?case
  proof (cases ok)
    case True
    with Cons.prems a have "c = a" "s' = s1" by auto
    with a True have "a # cs = [] @ c # cs \<and> first_successful attempt [] s = (None, s) \<and> attempt c s = (True, s')"
      by simp
    then show ?thesis by blast
  next
    case False
    with Cons.prems a have "first_successful attempt cs s1 = (Some c, s')" by simp
    from Cons.IH [OF this] obtain before after s2 where
      h: "cs = before @ c # after" "first_successful attempt before s1 = (None, s2)" "attempt c s2 = (True, s')"
      by blast
    from h a False have "a # cs = (a # before) @ c # after \<and>
        first_successful attempt (a # before) s = (None, s2) \<and> attempt c s2 = (True, s')"
      by simp
    then show ?thesis by blast
  qed
qed


lemma first_occurrences_subset: "set (first_occurrences xs) \<subseteq> set xs"
  by (induction xs rule: first_occurrences.induct) auto

lemma distinct_first_occurrences: "distinct (first_occurrences xs)"
proof (induction xs rule: first_occurrences.induct)
  case 1
  then show ?case by simp
next
  case (2 x xs)
  have "x \<notin> set (first_occurrences (filter (\<lambda>y. y \<noteq> x) xs))"
    using first_occurrences_subset [of "filter (\<lambda>y. y \<noteq> x) xs"] by auto
  with 2 show ?case by simp
qed

lemma first_occurrences_distinct: "distinct xs \<Longrightarrow> first_occurrences xs = xs"
proof (induction xs)
  case Nil
  then show ?case by simp
next
  case (Cons a xs)
  then have "filter (\<lambda>y. y \<noteq> a) xs = xs" by (auto intro: filter_True)
  with Cons show ?case by simp
qed

lemma present_entries_nonempty: "[] \<notin> set (present_entries vs)"
  by (induction vs rule: present_entries.induct) auto

lemma present_entries_Some: "[] \<notin> set ys \<Longrightarrow> present_entries (map Some ys) = ys"
  by (induction ys) auto

lemma distinct_sequence_nonempty: "[] \<notin> set (distinct_sequence vs)"
  using first_occurrences_subset [of "present_entries vs"] present_entries_nonempty [of vs]
  by (auto simp: distinct_sequence_spec)

lemma distinct_sequence_idem:
  "distinct_sequence (map Some (distinct_sequence vs)) = distinct_sequence vs"
proof -
  have "present_entries (map Some (distinct_sequence vs)) = distinct_sequence vs"
    by (rule present_entries_Some) (rule distinct_sequence_nonempty)
  moreover have "distinct (distinct_sequence vs)"
    by (simp add: distinct_sequence_spec distinct_first_occurrences)
  ultimately show ?thesis
    by (simp add: distinct_sequence_spec [of "map Some (distinct_sequence vs)"]
          first_occurrences_distinct)
qed

lemma branch_candidates_main: "''main'' \<in> set (branch_candidates requested info)"
proof -
  have p: "''main'' \<in> set (present_entries vs) \<Longrightarrow> ''main'' \<in> set (first_occurrences (present_entries vs))" for vs
  proof -
    have "set xs \<subseteq> set (first_occurrences xs)" for xs :: "string list"
      by (induction xs rule: first_occurrences.induct) auto
    then show "''main'' \<in> set (present_entries vs) \<Longrightarrow> ''main'' \<in> set (first_occurrences (present_entries vs))"
      by blast
  qed
  have q: "''main'' \<in> set (present_entries (vs @ [Some ''main'', Some ''master'']))" for vs
    by (induction vs rule: present_entries.induct) auto
  from q [of "[requested, branch info, default_branch info, last_commit_branch info]"]
  show ?thesis
    unfolding branch_candidates_def distinct_sequence_spec by (intro p) simp
qed


lemma first_successful_None_append:
  "first_successful attempt before s = (None, s1) \<Longrightarrow>
     first_successful attempt (before @ rest) s = first_successful attempt rest s1"
proof (induction before arbitrary: s)
  case Nil
  then show ?case by simp
next
  case (Cons a before)
  obtain ok s2 where a: "attempt a s = (ok, s2)" by (cases "attempt a s")
  with Cons.prems have "\<not> ok" by (cases ok) auto
  with Cons a show ?case by simp
qed

lemma first_successful_iff:
  "first_successful attempt cs s = (Some c, s') \<longleftrightarrow>
     (\<exists>before after s1. cs = before @ c # after \<and>
        first_successful attempt before s = (None, s1) \<and> attempt c s1 = (True, s'))"
proof
  assume "first_successful attempt cs s = (Some c, s')"
  from first_successful_Some [OF this] show "\<exists>before after s1. cs = before @ c # after \<and>
        first_successful attempt before s = (None, s1) \<and> attempt c s1 = (True, s')" .
next
  assume "\<exists>before after s1. cs = before @ c # after \<and>
        first_successful attempt before s = (None, s1) \<and> attempt c s1 = (True, s')"
  then obtain before after s1 where h: "cs = before @ c # after"
    "first_successful attempt before s = (None, s1)" "attempt c s1 = (True, s')" by blast
  from first_successful_None_append [OF h(2), of "c # after"] h(1,3)
  show "first_successful attempt cs s = (Some c, s')" by simp
qed

lemma check_and_commit_used:
  "check_and_commit e i0 used m w = (Installed i u, w') \<Longrightarrow> u = used"
  by (auto simp: check_and_commit_def split: prod.splits outcome.splits)

lemma validate_install_used:
  "validate_install e i0 used w = Result (Installed i u, w') \<Longrightarrow> u = used"
  unfolding validate_install_def
  by (auto split: option.splits content.splits jval.splits if_splits prod.splits bool.splits
        dest: check_and_commit_used)

lemma git_clone_True: "git_clone e r b t w = (True, w') \<Longrightarrow> fs w' t \<noteq> None"
  by (auto simp: git_clone_def Let_def split: option.splits if_splits)

lemma install_via_git_cases:
  assumes cs: "cs = distinct_sequence vs" and ne: "cs \<noteq> []"
  shows "install_via_git e r t cs w =
     (case first_successful (try_clone e r t) cs w of
        (Some b, w1) \<Rightarrow> (Some b, w1)
      | (None, w1) \<Rightarrow>
          (case git_clone e r None t w1 of
             (True, w2) \<Rightarrow> (None, w2)
           | (False, w2) \<Rightarrow> (None, cleanup e t w2)))"
  using ne unfolding install_via_git_def cs distinct_sequence_idem Let_def by simp

lemma branch_candidates_distinct_sequence:
  "branch_candidates requested info =
     distinct_sequence [requested, branch info, default_branch info, last_commit_branch info,
        Some ''main'', Some ''master'']"
  by (simp add: branch_candidates_def)

lemma branch_candidates_nonempty: "branch_candidates requested info \<noteq> []"
  using branch_candidates_main [of requested info] by auto

lemma fetch_direct_Some_iff:
  assumes cs: "cs = distinct_sequence vs" and ne: "cs \<noteq> []"
  shows "fetch_direct e r cs t w = (Some (Some b), w') \<longleftrightarrow>
       (\<exists>before after w2. cs = before @ b # after \<and>
            first_successful (try_clone e r t) before w = (None, w2) \<and>
            try_clone e r t b w2 = (True, w'))
       \<or> (\<exists>before after wa wb w2. cs = before @ b # after \<and>
            first_successful (try_clone e r t) cs w = (None, wa) \<and>
            git_clone e r None t wa = (False, wb) \<and> fs (cleanup e t wb) t = None \<and>
            first_successful (try_download e r t) before (cleanup e t wb) = (None, w2) \<and>
            try_download e r t b w2 = (True, w'))"
    (is "?L \<longleftrightarrow> ?G \<or> ?A")
proof -
  note g = install_via_git_cases [OF cs ne, of e r t w]
  obtain u wa where fc: "first_successful (try_clone e r t) cs w = (u, wa)"
    by (cases "first_successful (try_clone e r t) cs w")
  have G: "?G \<longleftrightarrow> first_successful (try_clone e r t) cs w = (Some b, w')"
    by (simp only: first_successful_iff)
  show ?thesis
  proof (cases u)
    case (Some b')
    with fc g have ig: "install_via_git e r t cs w = (Some b', wa)" by simp
    then have "?L \<longleftrightarrow> b' = b \<and> wa = w'" by (auto simp: fetch_direct_def)
    moreover from fc Some have "?G \<longleftrightarrow> b' = b \<and> wa = w'" unfolding G by auto
    moreover from fc Some have "\<not> ?A" by auto
    ultimately show ?thesis by blast
  next
    case None
    obtain ok wb where gc: "git_clone e r None t wa = (ok, wb)"
      by (cases "git_clone e r None t wa")
    from fc None have nG: "\<not> ?G" unfolding G by simp
    show ?thesis
    proof (cases ok)
      case True
      with fc None gc g have ig: "install_via_git e r t cs w = (None, wb)" by simp
      from gc True have "git_clone e r None t wa = (True, wb)" by simp
      from git_clone_True [OF this] have "fs wb t \<noteq> None" .
      with ig have "\<not> ?L" by (auto simp: fetch_direct_def)
      moreover from fc None gc True have "\<not> ?A" by auto
      ultimately show ?thesis using nG by blast
    next
      case False
      with fc None gc g have ig: "install_via_git e r t cs w = (None, cleanup e t wb)" by simp
      let ?w0 = "cleanup e t wb"
      show ?thesis
      proof (cases "fs ?w0 t = None")
        case absent: True
        have A: "?A \<longleftrightarrow> first_successful (try_download e r t) cs ?w0 = (Some b, w')"
          using fc None gc False absent by (auto simp: first_successful_iff)
        have "?L \<longleftrightarrow> first_successful (try_download e r t) cs ?w0 = (Some b, w')"
          using ig absent
          by (cases "first_successful (try_download e r t) cs ?w0")
             (auto simp: fetch_direct_def split: if_splits)
        with A nG show ?thesis by blast
      next
        case present: False
        with ig have "\<not> ?L" by (auto simp: fetch_direct_def)
        moreover from fc None gc False present have "\<not> ?A" by auto
        ultimately show ?thesis using nG by blast
      qed
    qed
  qed
qed

lemma fetch_direct_default_clone:
  assumes cs: "cs = distinct_sequence vs" and ne: "cs \<noteq> []"
    and fc: "first_successful (try_clone e r t) cs w = (None, w2)"
    and gc: "git_clone e r None t w2 = (True, w')"
  shows "fetch_direct e r cs t w = (Some None, w')"
proof -
  from install_via_git_cases [OF cs ne, of e r t w] fc gc
  have "install_via_git e r t cs w = (None, w')" by simp
  moreover from git_clone_True [OF gc] have "fs w' t \<noteq> None" .
  ultimately show ?thesis by (auto simp: fetch_direct_def)
qed

text \<open>
  Claim C5. The branch candidates of \<open>install_plugin\<close> are the sequence
  [requested branch, registry branch, registry default branch, last-known commit branch,
  "main", "master"] without its empty and absent entries, each entry kept at its first
  occurrence. They are tried in that order, and the acquisition ends with
  \<open>branch_used = b\<close> exactly when \<open>b\<close> is the first candidate that succeeds: with a
  sub-path, every candidate before \<open>b\<close> fails the monorepo install and \<open>b\<close> passes it;
  without one, either every candidate before \<open>b\<close> fails to clone and \<open>b\<close> is cloned, or
  every clone fails (each candidate's, then the one without a branch), no directory is
  left, every candidate before \<open>b\<close> fails the archive download and \<open>b\<close> passes it. When
  every candidate fails to clone and the clone without a branch succeeds, the acquisition
  ends with no branch recorded. Once the acquisition has ended with a branch or with
  none, \<open>install_plugin\<close> goes on with the validation of the fetched directory, and when
  it succeeds the branch named in its success line is the recorded branch, or, with none
  recorded, the registry's branch, else the registry's default branch, else "unknown".
\<close>

theorem install_plugin_first_successful_candidate:
  "branch_candidates requested info =
     first_occurrences (present_entries
       [requested, branch info, default_branch info, last_commit_branch info,
        Some ''main'', Some ''master''])
   \<and> (truthy_opt sub \<longrightarrow>
        (fetch_plugin e r sub (branch_candidates requested info) t w1 = (Some (Some b), w3) \<longleftrightarrow>
           (\<exists>before after w2.
              branch_candidates requested info = before @ b # after \<and>
              first_successful (try_monorepo e r (the_default [] sub) t) before w1 = (None, w2) \<and>
              try_monorepo e r (the_default [] sub) t b w2 = (True, w3))))
   \<and> (\<not> truthy_opt sub \<longrightarrow>
        (fetch_plugin e r sub (branch_candidates requested info) t w1 = (Some (Some b), w3) \<longleftrightarrow>
           (\<exists>before after w2.
              branch_candidates requested info = before @ b # after \<and>
              first_successful (try_clone e r t) before w1 = (None, w2) \<and>
              try_clone e r t b w2 = (True, w3))
           \<or> (\<exists>before after wa wb w2.
              branch_candidates requested info = before @ b # after \<and>
              first_successful (try_clone e r t) (branch_candidates requested info) w1
                = (None, wa) \<and>
              git_clone e r None t wa = (False, wb) \<and> fs (cleanup e t wb) t = None \<and>
              first_successful (try_download e r t) before (cleanup e t wb) = (None, w2) \<and>
              try_download e r t b w2 = (True, w3))))
   \<and> (\<not> truthy_opt sub \<and>
      first_successful (try_clone e r t) (branch_candidates requested info) w1 = (None, wa) \<and>
      git_clone e r None t wa = (True, w3) \<longrightarrow>
        fetch_plugin e r sub (branch_candidates requested info) t w1 = (Some None, w3))
   \<and> (registry_info e plugin_id = Some info \<and> truthy_opt (repo info) \<and>
      single_component plugin_id \<and>
      safe_remove_directory e (Plugins plugin_id) w = (True, w1) \<and>
      fetch_plugin e (the_default [] (repo info)) (plugin_path info)
        (branch_candidates requested info) (Plugins plugin_id) w1 = (Some used, w3) \<longrightarrow>
        install_plugin e plugin_id requested w = validate_install e plugin_id used w3)
   \<and> (registry_info e plugin_id = Some info \<and>
      install_plugin e plugin_id requested w = Result (Installed i used', w') \<longrightarrow>
        (\<exists>v1 v3.
           safe_remove_directory e (Plugins plugin_id) w = (True, v1) \<and>
           fetch_plugin e (the_default [] (repo info)) (plugin_path info)
             (branch_candidates requested info) (Plugins plugin_id) v1 = (Some used', v3) \<and>
           validate_install e plugin_id used' v3 = Result (Installed i used', w')) \<and>
        branch_display used' info =
          (case used' of
             Some b' \<Rightarrow> b'
           | None \<Rightarrow> if truthy_opt (branch info) then the_default [] (branch info)
                     else the_default ''unknown'' (default_branch info)))"
proof (intro conjI impI)
  let ?cs = "branch_candidates requested info"
  note csd = branch_candidates_distinct_sequence [of requested info]
  note ne = branch_candidates_nonempty [of requested info]
  show "?cs = first_occurrences (present_entries
       [requested, branch info, default_branch info, last_commit_branch info,
        Some ''main'', Some ''master''])"
    by (simp only: branch_candidates_def distinct_sequence_spec)
  show "fetch_plugin e r sub ?cs t w1 = (Some (Some b), w3) \<longleftrightarrow>
           (\<exists>before after w2.
              ?cs = before @ b # after \<and>
              first_successful (try_monorepo e r (the_default [] sub) t) before w1 = (None, w2) \<and>
              try_monorepo e r (the_default [] sub) t b w2 = (True, w3))"
    if "truthy_opt sub"
  proof -
    have "fetch_plugin e r sub ?cs t w1 = (Some (Some b), w3) \<longleftrightarrow>
        first_successful (try_monorepo e r (the_default [] sub) t) ?cs w1 = (Some b, w3)"
      using that by (auto simp: fetch_plugin_def split: prod.splits option.splits)
    then show ?thesis by (simp only: first_successful_iff)
  qed
  show "fetch_plugin e r sub ?cs t w1 = (Some (Some b), w3) \<longleftrightarrow>
           (\<exists>before after w2.
              ?cs = before @ b # after \<and>
              first_successful (try_clone e r t) before w1 = (None, w2) \<and>
              try_clone e r t b w2 = (True, w3))
           \<or> (\<exists>before after wa wb w2.
              ?cs = before @ b # after \<and>
              first_successful (try_clone e r t) ?cs w1 = (None, wa) \<and>
              git_clone e r None t wa = (False, wb) \<and> fs (cleanup e t wb) t = None \<and>
              first_successful (try_download e r t) before (cleanup e t wb) = (None, w2) \<and>
              try_download e r t b w2 = (True, w3))"
    if "\<not> truthy_opt sub"
  proof -
    from that have "fetch_plugin e r sub ?cs t w1 = fetch_direct e r ?cs t w1"
      by (simp add: fetch_plugin_def)
    then show ?thesis by (simp only: fetch_direct_Some_iff [OF csd ne])
  qed
  show "fetch_plugin e r sub ?cs t w1 = (Some None, w3)"
    if "\<not> truthy_opt sub \<and>
      first_successful (try_clone e r t) ?cs w1 = (None, wa) \<and>
      git_clone e r None t wa = (True, w3)"
  proof -
    from that have "fetch_plugin e r sub ?cs t w1 = fetch_direct e r ?cs t w1"
      by (simp add: fetch_plugin_def)
    with fetch_direct_default_clone [OF csd ne, of e r t w1 wa w3] that show ?thesis by simp
  qed
  show "install_plugin e plugin_id requested w = validate_install e plugin_id used w3"
    if "registry_info e plugin_id = Some info \<and> truthy_opt (repo info) \<and>
      single_component plugin_id \<and>
      safe_remove_directory e (Plugins plugin_id) w = (True, w1) \<and>
      fetch_plugin e (the_default [] (repo info)) (plugin_path info)
        ?cs (Plugins plugin_id) w1 = (Some used, w3)"
    using that by (simp add: install_plugin_def)
next
  assume a: "registry_info e plugin_id = Some info \<and>
      install_plugin e plugin_id requested w = Result (Installed i used', w')"
  let ?cs = "branch_candidates requested info"
  let ?r = "the_default [] (repo info)"
  let ?P = "Plugins plugin_id"
  from a obtain v1 where rm: "safe_remove_directory e ?P w = (True, v1)"
    by (auto simp: install_plugin_def split: if_splits prod.splits bool.splits option.splits)
  from a rm obtain u v3 where
    f: "fetch_plugin e ?r (plugin_path info) ?cs ?P v1 = (Some u, v3)" and
    v: "validate_install e plugin_id u v3 = Result (Installed i used', w')"
    by (auto simp: install_plugin_def split: if_splits prod.splits bool.splits option.splits)
  from validate_install_used [OF v] have u: "u = used'" by simp
  from rm f v u show "\<exists>v1 v3.
           safe_remove_directory e (Plugins plugin_id) w = (True, v1) \<and>
           fetch_plugin e (the_default [] (repo info)) (plugin_path info)
             (branch_candidates requested info) (Plugins plugin_id) v1 = (Some used', v3) \<and>
           validate_install e plugin_id used' v3 = Result (Installed i used', w')"
    by blast
  show "branch_display used' info =
          (case used' of
             Some b' \<Rightarrow> b'
           | None \<Rightarrow> if truthy_opt (branch info) then the_default [] (branch info)
                     else the_default ''unknown'' (default_branch info))"
  proof (cases used')
    case None
    then show ?thesis by (simp add: branch_display_def)
  next
    case (Some b')
    have "b' \<in> set ?cs"
    proof (cases "truthy_opt (plugin_path info)")
      case True
      with f u Some have "first_successful
          (try_monorepo e ?r (the_default [] (plugin_path info)) ?P) ?cs v1 = (Some b', v3)"
        by (auto simp: fetch_plugin_def split: prod.splits option.splits)
      from first_successful_Some [OF this] show ?thesis by auto
    next
      case False
      with f u Some have "fetch_direct e ?r ?cs ?P v1 = (Some (Some b'), v3)"
        by (simp add: fetch_plugin_def)
      then show ?thesis
        unfolding fetch_direct_Some_iff [OF branch_candidates_distinct_sequence
            branch_candidates_nonempty]
        by auto
    qed
    then have "b' \<noteq> []"
      using distinct_sequence_nonempty unfolding branch_candidates_distinct_sequence by metis
    with Some show ?thesis by (simp add: branch_display_def)
  qed
qed

text \<open>
  Claim C5, as stated, fails in its last part: the branch that \<open>install_plugin\<close> reports
  need not be one that succeeded. On a host where the clone of every candidate fails and
  the clone without a branch succeeds, the install of the clock plugin succeeds with no
  branch recorded, and its success line names the registry's branch \<open>dev\<close>, whose clone
  failed.
\<close>

theorem install_plugin_reports_branch_not_cloned:
  "install_plugin trunk_env ''clock'' None empty_world =
     Result (Installed ''clock'' None,
       \<lparr>fs = [Plugins ''clock'' \<mapsto> clock_checkout],
        trace = [GitClone ''https://github.com/acme/clock'' (Some ''dev''),
                 GitClone ''https://github.com/acme/clock'' (Some ''main''),
                 GitClone ''https://github.com/acme/clock'' (Some ''master''),
                 GitClone ''https://github.com/acme/clock'' None]\<rparr>)
   \<and> branch_display None clock_info = ''dev''
   \<and> try_clone trunk_env ''https://github.com/acme/clock'' (Plugins ''clock'') ''dev'' empty_world
       = (False, \<lparr>fs = Map.empty, trace = [GitClone ''https://github.com/acme/clock'' (Some ''dev'')]\<rparr>)"
proof -
  have run: "install_plugin trunk_env ''clock'' None empty_world =
     Result (Installed ''clock'' None,
       \<lparr>fs = [Plugins ''clock'' \<mapsto> clock_checkout],
        trace = [GitClone ''https://github.com/acme/clock'' (Some ''dev''),
                 GitClone ''https://github.com/acme/clock'' (Some ''main''),
                 GitClone ''https://github.com/acme/clock'' (Some ''master''),
                 GitClone ''https://github.com/acme/clock'' None]\<rparr>)"
    by (simp add: trunk_env_def single_component_def eval_defs)
  have shown: "branch_display None clock_info = ''dev''"
    by (simp add: branch_display_def clock_info_def truthy_opt_def the_default_def)
  have failed: "try_clone trunk_env ''https://github.com/acme/clock'' (Plugins ''clock'') ''dev''
      empty_world
       = (False, \<lparr>fs = Map.empty, trace = [GitClone ''https://github.com/acme/clock'' (Some ''dev'')]\<rparr>)"
    by (simp add: trunk_env_def eval_defs)
  from run shown failed show ?thesis by simp
qed

text \<open>The definitions that running a sub-path install on a concrete environment unfolds.\<close>

lemmas mono_defs = hello_offline_env_def hello_info_def offline_env_def empty_world_def
  install_plugin_def truthy_opt_def the_default_def safe_remove_directory_def branch_candidates_def
  distinct_sequence_def fetch_plugin_def try_monorepo_def succeeded_def install_from_monorepo_def
  parse_monorepo_download_url_def download_url_for_def archive_marker_def removesuffix_def
  install_from_monorepo_api_def owner_and_repo_def rstrip_slash_def emit_def cleanup_def
  http_get_with_retries_def numeral_3_eq_3 install_from_monorepo_zip_def Let_def
  suffix_to_prefix

lemma master_main_fails:
  "first_successful
     (try_monorepo master_env ''https://github.com/acme/ledmatrix-plugins'' ''plugins/hello-world''
        (Plugins ''hello-world''))
     [''main''] empty_world
   = (None,
      \<lparr>fs = Map.empty,
       trace = [TreeListing ''acme'' ''ledmatrix-plugins'' ''main'',
                ArchiveDownload ''https://github.com/acme/ledmatrix-plugins/archive/refs/heads/main.zip'']\<rparr>)"
  by (simp add: master_env_def mono_defs error_status_def)

lemma master_succeeds:
  "fst (try_monorepo master_env ''https://github.com/acme/ledmatrix-plugins'' ''plugins/hello-world''
        (Plugins ''hello-world'') ''master''
        \<lparr>fs = Map.empty,
         trace = [TreeListing ''acme'' ''ledmatrix-plugins'' ''main'',
                  ArchiveDownload ''https://github.com/acme/ledmatrix-plugins/archive/refs/heads/main.zip'']\<rparr>)
   = True"
  by (simp add: master_env_def mono_defs error_status_def master_archive_def archive_root_def
        inside_def resolve_under_def is_absolute_def path_parts_def unpack_member_def
        empty_unpacked_def is_dir_member_def sanitized_def source_plugin_dir_def)

theorem install_plugin_first_successful_candidate_witness:
  "branch_candidates None hello_info = [''main'', ''master'']
   \<and> fetch_plugin master_env ''https://github.com/acme/ledmatrix-plugins''
        (Some ''plugins/hello-world'') (branch_candidates None hello_info) (Plugins ''hello-world'')
        empty_world
       = (Some (Some ''master''),
          snd (try_monorepo master_env ''https://github.com/acme/ledmatrix-plugins''
                 ''plugins/hello-world'' (Plugins ''hello-world'') ''master''
                 \<lparr>fs = Map.empty,
                  trace = [TreeListing ''acme'' ''ledmatrix-plugins'' ''main'',
                           ArchiveDownload
                             ''https://github.com/acme/ledmatrix-plugins/archive/refs/heads/main.zip'']\<rparr>))
   \<and> install_plugin clock_registry_env ''clock'' (Some ''dev'') empty_world =
       Result (Installed ''clock'' (Some ''main''),
         \<lparr>fs = [Plugins ''clock'' \<mapsto> clock_checkout],
          trace = [GitClone ''https://github.com/acme/clock'' (Some ''dev''),
                   GitClone ''https://github.com/acme/clock'' (Some ''main'')]\<rparr>)
   \<and> branch_display (Some ''main'') clock_info = ''main''"
proof -
  let ?R = "''https://github.com/acme/ledmatrix-plugins''"
  let ?S = "''plugins/hello-world''"
  let ?P = "Plugins ''hello-world''"
  let ?w2 = "\<lparr>fs = Map.empty,
         trace = [TreeListing ''acme'' ''ledmatrix-plugins'' ''main'',
                  ArchiveDownload ''https://github.com/acme/ledmatrix-plugins/archive/refs/heads/main.zip'']\<rparr>"
  let ?w3 = "snd (try_monorepo master_env ?R ?S ?P ''master'' ?w2)"
  let ?w' = "\<lparr>fs = [Plugins ''clock'' \<mapsto> clock_checkout],
          trace = [GitClone ''https://github.com/acme/clock'' (Some ''dev''),
                   GitClone ''https://github.com/acme/clock'' (Some ''main'')]\<rparr>"
  have cs: "branch_candidates None hello_info = [''main'', ''master'']"
    by (simp add: branch_candidates_def distinct_sequence_def hello_info_def)
  have sub: "truthy_opt (Some ?S)" by (simp add: truthy_opt_def)
  have dflt: "the_default [] (Some ?S) = ?S" by (simp add: the_default_def)
  have split: "branch_candidates None hello_info = [''main''] @ ''master'' # []"
    by (simp add: cs)
  have later: "try_monorepo master_env ?R ?S ?P ''master'' ?w2 = (True, ?w3)"
    using master_succeeds by (simp add: prod_eq_iff)
  have ex: "\<exists>before after w2.
      branch_candidates None hello_info = before @ ''master'' # after \<and>
      first_successful (try_monorepo master_env ?R (the_default [] (Some ?S)) ?P) before empty_world
        = (None, w2) \<and>
      try_monorepo master_env ?R (the_default [] (Some ?S)) ?P ''master'' w2 = (True, ?w3)"
    unfolding dflt using split master_main_fails later by blast
  note thm1 = install_plugin_first_successful_candidate
         [where requested = None and info = hello_info and sub = "Some ?S" and e = master_env
            and r = ?R and t = ?P and ?w1.0 = empty_world and b = "''master''" and ?w3.0 = ?w3]
  from thm1 [THEN conjunct2, THEN conjunct1] sub ex
  have fetched: "fetch_plugin master_env ?R (Some ?S) (branch_candidates None hello_info) ?P
      empty_world = (Some (Some ''master''), ?w3)"
    by blast
  have run: "install_plugin clock_registry_env ''clock'' (Some ''dev'') empty_world =
     Result (Installed ''clock'' (Some ''main''), ?w')"
    by (simp add: single_component_def eval_defs)
  have reg: "registry_info clock_registry_env ''clock'' = Some clock_info"
    by (simp add: clock_registry_env_def)
  note thm2 = install_plugin_first_successful_candidate
         [where requested = "Some ''dev''" and info = clock_info and e = clock_registry_env
            and plugin_id = "''clock''" and w = empty_world and i = "''clock''"
            and used' = "Some ''main''" and w' = ?w']
  from thm2 [THEN conjunct2, THEN conjunct2, THEN conjunct2, THEN conjunct2, THEN conjunct2]
       reg run
  have shown: "branch_display (Some ''main'') clock_info = ''main''" by simp
  from cs fetched run shown show ?thesis by simp
qed

subsection \<open>Order of the monorepo strategies\<close>

lemma strategy_attempts_append:
  "strategy_attempts (xs @ ys) = strategy_attempts xs @ strategy_attempts ys"
  by (induction xs rule: strategy_attempts.induct) auto

lemma attempts_emit:
  "strategy_attempts (trace (emit ev w)) = strategy_attempts (trace w) @ strategy_attempts [ev]"
  by (simp add: emit_def strategy_attempts_append)

lemma attempts_safe_remove:
  "strategy_attempts (trace (snd (safe_remove_directory e p w))) = strategy_attempts (trace w)"
  by (simp add: safe_remove_directory_def unlink_def strategy_attempts_append)

lemma attempts_safe_remove':
  "safe_remove_directory e p w = (ok, w') \<Longrightarrow>
     strategy_attempts (trace w') = strategy_attempts (trace w)"
  using attempts_safe_remove [of e p w] by simp

lemma attempts_cleanup:
  "strategy_attempts (trace (cleanup e p w)) = strategy_attempts (trace w)"
  by (simp add: cleanup_def attempts_safe_remove)

lemma trace_mkdir: "trace (mkdir p w) = trace w"
  by (simp add: mkdir_def)

lemma trace_write_file: "trace (write_file p k c w) = trace w"
  by (simp add: write_file_def Let_def)

lemma attempts_download_entries:
  "strategy_attempts (trace (snd (download_entries e owner rp br n target ps w)))
     = strategy_attempts (trace w)"
proof (induction ps arbitrary: w)
  case Nil
  then show ?case by simp
next
  case (Cons p ps)
  show ?case
    by (simp add: Let_def attempts_cleanup attempts_emit Cons.IH trace_write_file
          split: option.splits prod.splits)
qed

lemma attempts_api:
  "owner_and_repo repo_url = Some (owner, rp) \<Longrightarrow>
   strategy_attempts (trace (snd (install_from_monorepo_api e repo_url br sub target w)))
     = strategy_attempts (trace w) @ [TreeAttempt br]"
  by (simp add: install_from_monorepo_api_def Let_def attempts_cleanup attempts_emit
        attempts_download_entries trace_mkdir
        split: option.splits prod.splits sum.splits jval.splits)

lemma attempts_zip:
  "strategy_attempts (trace (snd (install_from_monorepo_zip e url sub target w)))
     = strategy_attempts (trace w) @ [ArchiveAttempt url]"
  by (simp add: install_from_monorepo_zip_def Let_def attempts_emit attempts_safe_remove'
        split: option.splits prod.splits content.splits list.splits bool.splits sum.splits)


lemma attempts_complete_manifest:
  "strategy_attempts (trace (snd (complete_manifest e p m w))) = strategy_attempts (trace w)"
  by (simp add: complete_manifest_def Let_def trace_write_file split: option.splits sum.splits)

lemma attempts_install_dependencies:
  "strategy_attempts (trace (snd (install_dependencies e p w))) = strategy_attempts (trace w)"
  by (simp add: install_dependencies_def attempts_emit split: option.splits)

lemma attempts_check_and_commit:
  "strategy_attempts (trace (snd (check_and_commit e i used m w))) = strategy_attempts (trace w)"
proof -
  obtain r w1 where c: "complete_manifest e (Plugins i) m w = (r, w1)"
    by (cases "complete_manifest e (Plugins i) m w")
  with attempts_complete_manifest [of e "Plugins i" m w]
  have 1: "strategy_attempts (trace w1) = strategy_attempts (trace w)" by simp
  obtain ok w2 where d: "install_dependencies e (Plugins i) w1 = (ok, w2)"
    by (cases "install_dependencies e (Plugins i) w1")
  with attempts_install_dependencies [of e "Plugins i" w1]
  have 2: "strategy_attempts (trace w2) = strategy_attempts (trace w1)" by simp
  from c d 1 2 show ?thesis
    by (cases r) (simp_all add: check_and_commit_def attempts_safe_remove)
qed

lemma trace_move_dir: "trace (move_dir a b w) = trace w"
  by (simp add: move_dir_def)

lemma attempts_check_and_commit':
  "check_and_commit e i used m w = (r, w') \<Longrightarrow>
     strategy_attempts (trace w') = strategy_attempts (trace w)"
  using attempts_check_and_commit [of e i used m w] by simp

lemma attempts_validate_install:
  "validate_install e i used w = Result (r, w') \<Longrightarrow>
     strategy_attempts (trace w') = strategy_attempts (trace w)"
  unfolding validate_install_def
  by (auto simp: attempts_safe_remove trace_move_dir
        dest!: attempts_safe_remove' attempts_check_and_commit'
        split: option.splits content.splits jval.splits prod.splits bool.splits if_splits)

lemma turn_install_from_monorepo:
  "tree_attempt_for url = Some (ru, br) \<Longrightarrow>
     install_from_monorepo e url sub target w =
       (case install_from_monorepo_api e ru br sub target w of
          (Done, w1) \<Rightarrow> (Done, w1)
        | (Failed x, w1) \<Rightarrow> install_from_monorepo_zip e url sub target (cleanup e target w1))"
  by (auto simp: tree_attempt_for_def install_from_monorepo_def
        split: prod.splits option.splits if_splits)

lemma tree_attempt_owner:
  "tree_attempt_for url = Some (ru, br) \<Longrightarrow> \<exists>owner rp. owner_and_repo ru = Some (owner, rp)"
  by (auto simp: tree_attempt_for_def split: prod.splits option.splits if_splits)

lemma turn_without_tree:
  assumes "tree_attempt_for url = None"
  shows "\<exists>w0. install_from_monorepo e url sub target w
               = install_from_monorepo_zip e url sub target w0
            \<and> strategy_attempts (trace w0) = strategy_attempts (trace w)"
proof (cases "parse_monorepo_download_url url")
  case (Pair a b)
  show ?thesis
  proof (cases "\<exists>ru br. a = Some ru \<and> b = Some br \<and> ru \<noteq> [] \<and> br \<noteq> []")
    case True
    then obtain ru br where p: "a = Some ru" "b = Some br" "ru \<noteq> []" "br \<noteq> []" by blast
    with assms Pair have "owner_and_repo ru = None"
      by (cases "owner_and_repo ru") (auto simp: tree_attempt_for_def split: if_splits)
    then have "install_from_monorepo_api e ru br sub target w = (Failed BadRepoUrl, w)"
      by (simp add: install_from_monorepo_api_def)
    with Pair p have "install_from_monorepo e url sub target w
        = install_from_monorepo_zip e url sub target (cleanup e target w)"
      by (simp add: install_from_monorepo_def)
    with attempts_cleanup [of e target w] show ?thesis by blast
  next
    case False
    with Pair have "install_from_monorepo e url sub target w
        = install_from_monorepo_zip e url sub target w"
      by (auto simp: install_from_monorepo_def split: option.splits)
    then show ?thesis by blast
  qed
qed

lemma attempts_turn:
  "strategy_attempts (trace (snd (install_from_monorepo e url sub target w)))
     = strategy_attempts (trace w) @ turn_attempts url (tree_done e url sub target w)"
proof (cases "tree_attempt_for url")
  case None
  from turn_without_tree [OF None, of e sub target w] obtain w0 where
    h: "install_from_monorepo e url sub target w = install_from_monorepo_zip e url sub target w0"
       "strategy_attempts (trace w0) = strategy_attempts (trace w)" by blast
  with attempts_zip [of e url sub target w0] None show ?thesis
    by (simp add: turn_attempts_def)
next
  case (Some a)
  obtain ru br where a: "a = (ru, br)" by (cases a)
  from Some a have t: "tree_attempt_for url = Some (ru, br)" by simp
  from tree_attempt_owner [OF t] obtain owner rp where o: "owner_and_repo ru = Some (owner, rp)"
    by blast
  obtain r1 w1 where api: "install_from_monorepo_api e ru br sub target w = (r1, w1)"
    by (cases "install_from_monorepo_api e ru br sub target w")
  from attempts_api [OF o, of e br sub target w] api
  have t1: "strategy_attempts (trace w1) = strategy_attempts (trace w) @ [TreeAttempt br]"
    by simp
  show ?thesis
  proof (cases r1)
    case Done
    with turn_install_from_monorepo [OF t, of e sub target w] api t1 t show ?thesis
      by (simp add: turn_attempts_def tree_done_def)
  next
    case (Failed x)
    with turn_install_from_monorepo [OF t, of e sub target w] api
    have "install_from_monorepo e url sub target w
            = install_from_monorepo_zip e url sub target (cleanup e target w1)" by simp
    with attempts_zip [of e url sub target "cleanup e target w1"] t1 t api Failed show ?thesis
      by (simp add: turn_attempts_def tree_done_def attempts_cleanup)
  qed
qed

lemma failed_turn_not_done:
  assumes "try_monorepo e repo_url sub target c w = (False, w1)"
  shows "\<not> tree_done e (download_url_for repo_url c) sub target w"
proof
  assume d: "tree_done e (download_url_for repo_url c) sub target w"
  then obtain ru br where t: "tree_attempt_for (download_url_for repo_url c) = Some (ru, br)"
    and f: "fst (install_from_monorepo_api e ru br sub target w) = Done"
    by (auto simp: tree_done_def split: option.splits)
  from turn_install_from_monorepo [OF t, of e sub target w] f
  have "fst (install_from_monorepo e (download_url_for repo_url c) sub target w) = Done"
    by (cases "install_from_monorepo_api e ru br sub target w") auto
  with assms show False
    by (cases "install_from_monorepo e (download_url_for repo_url c) sub target w")
       (auto simp: try_monorepo_def succeeded_def)
qed

lemma snd_try_monorepo:
  "snd (try_monorepo e repo_url sub target c w)
     = snd (install_from_monorepo e (download_url_for repo_url c) sub target w)"
  by (cases "install_from_monorepo e (download_url_for repo_url c) sub target w")
     (auto simp: try_monorepo_def succeeded_def split: outcome.splits)

lemma attempts_loop_failed:
  "first_successful (try_monorepo e repo_url sub target) cs w = (None, w') \<Longrightarrow>
     strategy_attempts (trace w')
       = strategy_attempts (trace w) @ concat (map (failed_turn repo_url) cs)"
proof (induction cs arbitrary: w)
  case Nil
  then show ?case by simp
next
  case (Cons c cs)
  obtain ok w1 where a: "try_monorepo e repo_url sub target c w = (ok, w1)"
    by (cases "try_monorepo e repo_url sub target c w")
  with Cons.prems have no: "\<not> ok" by (cases ok) auto
  with a Cons.prems have rest: "first_successful (try_monorepo e repo_url sub target) cs w1 = (None, w')"
    by simp
  from a no have nd: "\<not> tree_done e (download_url_for repo_url c) sub target w"
    using failed_turn_not_done by simp
  from attempts_turn [of e "download_url_for repo_url c" sub target w] snd_try_monorepo [of e repo_url sub target c w] a nd
  have "strategy_attempts (trace w1) = strategy_attempts (trace w) @ failed_turn repo_url c"
    by (simp add: failed_turn_def)
  with Cons.IH [OF rest] show ?case by simp
qed

lemma attempts_loop_succeeded:
  assumes "first_successful (try_monorepo e repo_url sub target) cs w = (Some b, w')"
  shows "\<exists>before after w2. cs = before @ b # after \<and>
      first_successful (try_monorepo e repo_url sub target) before w = (None, w2) \<and>
      try_monorepo e repo_url sub target b w2 = (True, w') \<and>
      strategy_attempts (trace w')
        = strategy_attempts (trace w) @ concat (map (failed_turn repo_url) before)
            @ turn_attempts (download_url_for repo_url b)
                (tree_done e (download_url_for repo_url b) sub target w2)"
proof -
  from first_successful_Some [OF assms] obtain before after w2 where
    h: "cs = before @ b # after"
       "first_successful (try_monorepo e repo_url sub target) before w = (None, w2)"
       "try_monorepo e repo_url sub target b w2 = (True, w')" by blast
  from attempts_turn [of e "download_url_for repo_url b" sub target w2]
       snd_try_monorepo [of e repo_url sub target b w2] h(3)
  have "strategy_attempts (trace w') = strategy_attempts (trace w2)
      @ turn_attempts (download_url_for repo_url b)
          (tree_done e (download_url_for repo_url b) sub target w2)" by simp
  with attempts_loop_failed [OF h(2)] h show ?thesis by auto
qed

lemma failed_turn_usual:
  assumes "parse_monorepo_download_url (download_url_for repo_url c) = (Some repo_url, Some c)"
    and "repo_url \<noteq> []" and "c \<noteq> []" and "owner_and_repo repo_url \<noteq> None"
  shows "failed_turn repo_url c = [TreeAttempt c, ArchiveAttempt (download_url_for repo_url c)]"
  using assms by (simp add: failed_turn_def turn_attempts_def tree_attempt_for_def)

lemma failed_turns_usual:
  assumes "repo_url \<noteq> []" and "owner_and_repo repo_url \<noteq> None"
    and "\<forall>c \<in> set cs. c \<noteq> [] \<and>
           parse_monorepo_download_url (download_url_for repo_url c) = (Some repo_url, Some c)"
  shows "concat (map (failed_turn repo_url) cs) = per_candidate_order repo_url cs"
  using assms(3)
proof (induction cs)
  case Nil
  then show ?case by (simp add: per_candidate_order_def)
next
  case (Cons c cs)
  then have "failed_turn repo_url c = [TreeAttempt c, ArchiveAttempt (download_url_for repo_url c)]"
    using failed_turn_usual [OF _ assms(1) _ assms(2), of c] by simp
  with Cons show ?case by (simp add: per_candidate_order_def)
qed

subsection \<open>Order of the monorepo strategies\<close>

text \<open>
  Claim C9, as amended. With a sub-path, \<open>install_plugin\<close> goes through the branch
  candidates in order and, for each, calls \<open>install_from_monorepo\<close> with the candidate's
  download URL. One such turn makes the partial-tree attempt first (when the download
  URL parses into a non-empty repository URL and branch, and the repository URL into an
  owner and a repository; otherwise no listing is requested) and makes the archive
  attempt for the same URL exactly when the partial-tree attempt did not succeed. So the
  attempts of a turn are: the partial-tree attempt alone when it succeeds; the
  partial-tree attempt, then the archive attempt when it fails; the archive attempt alone
  when no partial-tree attempt is made. When every candidate fails, the attempts of the
  loop are those of the failed turns of all the candidates, in order; when candidate \<open>b\<close>
  succeeds, they are those of the failed turns of the candidates before \<open>b\<close>, then those
  of the turn of \<open>b\<close>, and nothing for the candidates after \<open>b\<close>. For a repository URL
  with an owner and a repository, and candidates whose download URLs parse back into the
  repository URL and the candidate, the failed turns are partial-tree attempt and archive
  attempt of the first candidate, partial-tree attempt and archive attempt of the second
  candidate, and so on. The attempts of \<open>install_plugin\<close> are those of this loop, or none
  when it returns before the loop.
\<close>

theorem install_plugin_attempts_per_candidate:
  "(tree_attempt_for url = Some (ru, br) \<longrightarrow>
      install_from_monorepo e url sub target w =
        (case install_from_monorepo_api e ru br sub target w of
           (Done, w1) \<Rightarrow> (Done, w1)
         | (Failed x, w1) \<Rightarrow> install_from_monorepo_zip e url sub target (cleanup e target w1)) \<and>
      strategy_attempts (trace (snd (install_from_monorepo_api e ru br sub target w)))
        = strategy_attempts (trace w) @ [TreeAttempt br])
   \<and> strategy_attempts (trace (snd (install_from_monorepo_zip e url sub target w)))
        = strategy_attempts (trace w) @ [ArchiveAttempt url]
   \<and> strategy_attempts (trace (snd (install_from_monorepo e url sub target w)))
        = strategy_attempts (trace w) @ turn_attempts url (tree_done e url sub target w)
   \<and> (first_successful (try_monorepo e repo_url sub target) cs w = (None, w') \<longrightarrow>
        strategy_attempts (trace w')
          = strategy_attempts (trace w) @ concat (map (failed_turn repo_url) cs))
   \<and> (first_successful (try_monorepo e repo_url sub target) cs w = (Some b, w') \<longrightarrow>
        (\<exists>before after w2. cs = before @ b # after \<and>
           first_successful (try_monorepo e repo_url sub target) before w = (None, w2) \<and>
           try_monorepo e repo_url sub target b w2 = (True, w') \<and>
           strategy_attempts (trace w')
             = strategy_attempts (trace w) @ concat (map (failed_turn repo_url) before)
                 @ turn_attempts (download_url_for repo_url b)
                     (tree_done e (download_url_for repo_url b) sub target w2)))
   \<and> (repo_url \<noteq> [] \<and> owner_and_repo repo_url \<noteq> None \<and>
      (\<forall>c \<in> set cs. c \<noteq> [] \<and>
           parse_monorepo_download_url (download_url_for repo_url c) = (Some repo_url, Some c)) \<longrightarrow>
        concat (map (failed_turn repo_url) cs) = per_candidate_order repo_url cs)
   \<and> (registry_info e plugin_id = Some info \<and> truthy_opt (plugin_path info) \<and>
      install_plugin e plugin_id requested v = Result (res, v') \<longrightarrow>
        (if truthy_opt (repo info) \<and> fst (safe_remove_directory e (Plugins plugin_id) v)
         then strategy_attempts (trace v')
                = strategy_attempts
                    (trace (snd (first_successful
                       (try_monorepo e (the_default [] (repo info))
                          (the_default [] (plugin_path info)) (Plugins plugin_id))
                       (branch_candidates requested info)
                       (snd (safe_remove_directory e (Plugins plugin_id) v))))) \<and>
              strategy_attempts (trace (snd (safe_remove_directory e (Plugins plugin_id) v)))
                = strategy_attempts (trace v)
         else strategy_attempts (trace v') = strategy_attempts (trace v)))"
proof (intro conjI impI)
  assume t: "tree_attempt_for url = Some (ru, br)"
  from turn_install_from_monorepo [OF t]
  show "install_from_monorepo e url sub target w =
        (case install_from_monorepo_api e ru br sub target w of
           (Done, w1) \<Rightarrow> (Done, w1)
         | (Failed x, w1) \<Rightarrow> install_from_monorepo_zip e url sub target (cleanup e target w1))" .
  from tree_attempt_owner [OF t] obtain owner rp where "owner_and_repo ru = Some (owner, rp)"
    by blast
  from attempts_api [OF this]
  show "strategy_attempts (trace (snd (install_from_monorepo_api e ru br sub target w)))
        = strategy_attempts (trace w) @ [TreeAttempt br]" .
next
  show "strategy_attempts (trace (snd (install_from_monorepo_zip e url sub target w)))
        = strategy_attempts (trace w) @ [ArchiveAttempt url]"
    by (rule attempts_zip)
  show "strategy_attempts (trace (snd (install_from_monorepo e url sub target w)))
        = strategy_attempts (trace w) @ turn_attempts url (tree_done e url sub target w)"
    by (rule attempts_turn)
  show "strategy_attempts (trace w')
          = strategy_attempts (trace w) @ concat (map (failed_turn repo_url) cs)"
    if "first_successful (try_monorepo e repo_url sub target) cs w = (None, w')"
    using that by (rule attempts_loop_failed)
  show "\<exists>before after w2. cs = before @ b # after \<and>
           first_successful (try_monorepo e repo_url sub target) before w = (None, w2) \<and>
           try_monorepo e repo_url sub target b w2 = (True, w') \<and>
           strategy_attempts (trace w')
             = strategy_attempts (trace w) @ concat (map (failed_turn repo_url) before)
                 @ turn_attempts (download_url_for repo_url b)
                     (tree_done e (download_url_for repo_url b) sub target w2)"
    if "first_successful (try_monorepo e repo_url sub target) cs w = (Some b, w')"
    using that by (rule attempts_loop_succeeded)
  show "concat (map (failed_turn repo_url) cs) = per_candidate_order repo_url cs"
    if "repo_url \<noteq> [] \<and> owner_and_repo repo_url \<noteq> None \<and>
      (\<forall>c \<in> set cs. c \<noteq> [] \<and>
           parse_monorepo_download_url (download_url_for repo_url c) = (Some repo_url, Some c))"
    using that failed_turns_usual by blast
next
  assume a: "registry_info e plugin_id = Some info \<and> truthy_opt (plugin_path info) \<and>
      install_plugin e plugin_id requested v = Result (res, v')"
  let ?P = "Plugins plugin_id"
  let ?loop = "first_successful
                       (try_monorepo e (the_default [] (repo info))
                          (the_default [] (plugin_path info)) ?P)
                       (branch_candidates requested info)
                       (snd (safe_remove_directory e ?P v))"
  obtain ok v1 where rm: "safe_remove_directory e ?P v = (ok, v1)"
    by (cases "safe_remove_directory e ?P v")
  from attempts_safe_remove' [OF rm]
  have t1: "strategy_attempts (trace v1) = strategy_attempts (trace v)" .
  show "if truthy_opt (repo info) \<and> fst (safe_remove_directory e ?P v)
         then strategy_attempts (trace v') = strategy_attempts (trace (snd ?loop)) \<and>
              strategy_attempts (trace (snd (safe_remove_directory e ?P v)))
                = strategy_attempts (trace v)
         else strategy_attempts (trace v') = strategy_attempts (trace v)"
  proof (cases "truthy_opt (repo info) \<and> ok")
    case False
    with a rm t1 show ?thesis
      by (auto simp: install_plugin_def split: if_splits)
  next
    case True
    obtain used v2 where l: "first_successful
                       (try_monorepo e (the_default [] (repo info))
                          (the_default [] (plugin_path info)) ?P)
                       (branch_candidates requested info) v1 = (used, v2)"
      by (cases "first_successful
                       (try_monorepo e (the_default [] (repo info))
                          (the_default [] (plugin_path info)) ?P)
                       (branch_candidates requested info) v1")
    have "strategy_attempts (trace v') = strategy_attempts (trace v2)"
    proof (cases used)
      case None
      with a rm True l show ?thesis
        by (auto simp: install_plugin_def fetch_plugin_def split: if_splits)
    next
      case (Some b)
      with a rm True l have "validate_install e plugin_id (Some b) v2 = Result (res, v')"
        by (auto simp: install_plugin_def fetch_plugin_def split: if_splits)
      from attempts_validate_install [OF this] show ?thesis .
    qed
    with rm True l t1 show ?thesis by simp
  qed
qed

lemma hello_parse:
  "parse_monorepo_download_url
     (download_url_for ''https://github.com/acme/ledmatrix-plugins'' ''main'')
     = (Some ''https://github.com/acme/ledmatrix-plugins'', Some ''main'')"
  "parse_monorepo_download_url
     (download_url_for ''https://github.com/acme/ledmatrix-plugins'' ''master'')
     = (Some ''https://github.com/acme/ledmatrix-plugins'', Some ''master'')"
  by (simp_all add: parse_monorepo_download_url_def download_url_for_def archive_marker_def
        removesuffix_def suffix_to_prefix)

lemma hello_offline_loop:
  "first_successful
     (try_monorepo hello_offline_env ''https://github.com/acme/ledmatrix-plugins''
        ''plugins/hello-world'' (Plugins ''hello-world''))
     [''main'', ''master''] empty_world
   = (None,
      \<lparr>fs = Map.empty,
       trace = [TreeListing ''acme'' ''ledmatrix-plugins'' ''main'',
                ArchiveDownload ''https://github.com/acme/ledmatrix-plugins/archive/refs/heads/main.zip'',
                TreeListing ''acme'' ''ledmatrix-plugins'' ''master'',
                ArchiveDownload ''https://github.com/acme/ledmatrix-plugins/archive/refs/heads/master.zip'']\<rparr>)"
  by (simp add: mono_defs)

text \<open>
  Claim C9, as stated, fails: without network, \<open>install_plugin\<close> of the sub-path plugin
  \<open>hello-world\<close> downloads the archive of \<open>main\<close> before it asks for the tree of
  \<open>master\<close>.
\<close>

theorem install_plugin_archive_before_next_tree:
  "install_plugin hello_offline_env ''hello-world'' None empty_world =
     Result (NotInstalled AcquisitionFailed,
      \<lparr>fs = Map.empty,
       trace = [TreeListing ''acme'' ''ledmatrix-plugins'' ''main'',
                ArchiveDownload ''https://github.com/acme/ledmatrix-plugins/archive/refs/heads/main.zip'',
                TreeListing ''acme'' ''ledmatrix-plugins'' ''master'',
                ArchiveDownload ''https://github.com/acme/ledmatrix-plugins/archive/refs/heads/master.zip'']\<rparr>)
   \<and> \<not> no_tree_after_archive
       (strategy_attempts
          [TreeListing ''acme'' ''ledmatrix-plugins'' ''main'',
           ArchiveDownload ''https://github.com/acme/ledmatrix-plugins/archive/refs/heads/main.zip'',
           TreeListing ''acme'' ''ledmatrix-plugins'' ''master'',
           ArchiveDownload ''https://github.com/acme/ledmatrix-plugins/archive/refs/heads/master.zip''])"
proof -
  have cs: "branch_candidates None hello_info = [''main'', ''master'']"
    by (simp add: branch_candidates_def distinct_sequence_def hello_info_def)
  have "install_plugin hello_offline_env ''hello-world'' None empty_world =
     Result (NotInstalled AcquisitionFailed,
      \<lparr>fs = Map.empty,
       trace = [TreeListing ''acme'' ''ledmatrix-plugins'' ''main'',
                ArchiveDownload ''https://github.com/acme/ledmatrix-plugins/archive/refs/heads/main.zip'',
                TreeListing ''acme'' ''ledmatrix-plugins'' ''master'',
                ArchiveDownload ''https://github.com/acme/ledmatrix-plugins/archive/refs/heads/master.zip'']\<rparr>)"
    by (simp add: mono_defs single_component_def)
  then show ?thesis by simp
qed

end
